theory Spec2Isabelle
  imports Complex_Main
begin

section \<open>Configuration values\<close>

text \<open>
  The configuration handled by \<^verbatim>\<open>MediaProcessor\<close> is a plain JavaScript value. It is
  modelled as a datatype of JSON-like values. An object is the list of its own enumerable
  properties in enumeration order, an array the list of its elements. Numbers are rationals
  (the idealisation of IEEE doubles that is used throughout), strings are byte strings.
  Objects are plain data objects: no prototype chain, no key \<^verbatim>\<open>__proto__\<close>, no accessor
  properties; keys that look like array indices are enumerated by JavaScript before all
  other keys, which the list order of the model does not re-establish on insertion.
\<close>

datatype json =
    JUndefined
  | JNull
  | JBool bool
  | JNum rat
  | JStr string
  | JArr "json list"
  | JObj "(string \<times> json) list"

text \<open>Decimal rendering of an array index, used for the property names of arrays and strings.\<close>

fun string_of_nat :: "nat \<Rightarrow> string" where
  "string_of_nat n =
     (if n < 10 then [char_of (48 + n)]
      else string_of_nat (n div 10) @ [char_of (48 + n mod 10)])"

declare string_of_nat.simps [simp del]

text \<open>JavaScript truthiness (\<^verbatim>\<open>!!v\<close>).\<close>

fun truthy :: "json \<Rightarrow> bool" where
  "truthy JUndefined = False"
| "truthy JNull = False"
| "truthy (JBool b) = b"
| "truthy (JNum r) = (r \<noteq> 0)"
| "truthy (JStr s) = (s \<noteq> [])"
| "truthy (JArr xs) = True"
| "truthy (JObj kvs) = True"

text \<open>\<^verbatim>\<open>typeof v === 'object'\<close> (true of \<^verbatim>\<open>null\<close> as well) and \<^verbatim>\<open>Array.isArray(v)\<close>.\<close>

fun typeof_object :: "json \<Rightarrow> bool" where
  "typeof_object JNull = True"
| "typeof_object (JArr xs) = True"
| "typeof_object (JObj kvs) = True"
| "typeof_object v = False"

fun isArray :: "json \<Rightarrow> bool" where
  "isArray (JArr xs) = True"
| "isArray v = False"

text \<open>
  The own enumerable properties of a value, in enumeration order: what \<^verbatim>\<open>{...v}\<close> copies
  and what \<^verbatim>\<open>for (key in v)\<close> visits. Arrays and strings expose their indices; the other
  primitives expose nothing.
\<close>

fun entries :: "json \<Rightarrow> (string \<times> json) list" where
  "entries (JObj kvs) = kvs"
| "entries (JArr xs) = zip (map string_of_nat [0..<length xs]) xs"
| "entries (JStr s) = zip (map string_of_nat [0..<length s]) (map (\<lambda>c. JStr [c]) s)"
| "entries v = []"

text \<open>Reading \<^verbatim>\<open>o[k]\<close> on a property list: a missing key reads as \<^verbatim>\<open>undefined\<close>.\<close>

definition obj_get :: "(string \<times> json) list \<Rightarrow> string \<Rightarrow> json" where
  "obj_get kvs k = (case map_of kvs k of Some v \<Rightarrow> v | None \<Rightarrow> JUndefined)"

text \<open>Writing \<^verbatim>\<open>o[k] = v\<close>: an existing key keeps its position, a new key goes last.\<close>

fun obj_set :: "(string \<times> json) list \<Rightarrow> string \<Rightarrow> json \<Rightarrow> (string \<times> json) list" where
  "obj_set [] k v = [(k, v)]"
| "obj_set ((k', v') # kvs) k v =
     (if k' = k then (k, v) # kvs else (k', v') # obj_set kvs k v)"

text \<open>\<^verbatim>\<open>v || {}\<close>\<close>

definition or_empty :: "json \<Rightarrow> json" where
  "or_empty v = (if truthy v then v else JObj [])"

text \<open>\<^verbatim>\<open>{...defaults, ...config}\<close>, the shallow merge used by every module constructor.\<close>

definition spread2 :: "(string \<times> json) list \<Rightarrow> json \<Rightarrow> json" where
  "spread2 defaults config = JObj (fold (\<lambda>(k, v) r. obj_set r k v) (entries config) defaults)"

subsection \<open>Errors\<close>

text \<open>
  The source throws plain \<^verbatim>\<open>Error\<close> objects that differ in their message; the model has
  one constructor per message family.
  \<^item> \<open>DestroyedError\<close>: \<^verbatim>\<open>'MediaProcessor has been destroyed'\<close>
  \<^item> \<open>InvalidInputError\<close>: \<^verbatim>\<open>'Invalid MediaStream provided'\<close>
  \<^item> \<open>NotInitializedError c\<close>: \<^verbatim>\<open>'<c> not initialized'\<close>
  \<^item> \<open>TypeError\<close>: a property read on \<^verbatim>\<open>null\<close> or \<^verbatim>\<open>undefined\<close>
  \<^item> \<open>UnknownFeature f\<close>: \<^verbatim>\<open>'Unknown feature: <f>'\<close>
  \<^item> \<open>BackendError m\<close>: an exception raised by the browser (audio, canvas, WebGL)
  \<^item> \<open>InitializationError e\<close>: \<^verbatim>\<open>'Failed to initialize processors: <message of e>'\<close>
\<close>

datatype error =
    DestroyedError
  | InvalidInputError
  | NotInitializedError string
  | TypeError
  | UnknownFeature string
  | BackendError string
  | InitializationError error

definition bindE :: "error + 'a \<Rightarrow> ('a \<Rightarrow> error + 'b) \<Rightarrow> error + 'b" where
  "bindE m f = (case m of Inl e \<Rightarrow> Inl e | Inr x \<Rightarrow> f x)"

text \<open>The property read \<^verbatim>\<open>v.k\<close>, which throws on \<^verbatim>\<open>null\<close> and \<^verbatim>\<open>undefined\<close>.\<close>

definition get_prop :: "json \<Rightarrow> string \<Rightarrow> error + json" where
  "get_prop v k =
     (if v = JUndefined \<or> v = JNull then Inl TypeError else Inr (obj_get (entries v) k))"

text \<open>\<^verbatim>\<open>o.k.enabled\<close> as a condition, and \<^verbatim>\<open>o.k?.enabled\<close> with optional chaining.\<close>

definition member_enabled :: "json \<Rightarrow> string \<Rightarrow> error + bool" where
  "member_enabled o' k =
     bindE (get_prop o' k) (\<lambda>m. bindE (get_prop m ''enabled'') (\<lambda>e. Inr (truthy e)))"

definition member_enabled_opt :: "json \<Rightarrow> string \<Rightarrow> error + bool" where
  "member_enabled_opt o' k =
     bindE (get_prop o' k) (\<lambda>m.
       if m = JUndefined \<or> m = JNull then Inr False
       else bindE (get_prop m ''enabled'') (\<lambda>e. Inr (truthy e)))"

subsection \<open>deepMerge and mergeConfig\<close>

text \<open>
  \<^verbatim>\<open>
  deepMerge(target, source) {
    const result = { ...target };
    for (const key in source) {
      if (source[key] && typeof source[key] === 'object' && !Array.isArray(source[key])) {
        result[key] = this.deepMerge(result[key] || {}, source[key]);
      } else {
        result[key] = source[key];
      }
    }
    return result;
  }
  \<close>
\<close>

function deepMerge :: "json \<Rightarrow> json \<Rightarrow> json" where
  "deepMerge target source =
     JObj (fold (\<lambda>(key, v) result.
                   if truthy v \<and> typeof_object v \<and> \<not> isArray v
                   then obj_set result key (deepMerge (or_empty (obj_get result key)) v)
                   else obj_set result key v)
                (entries source) (entries target))"
  by pat_completeness auto
termination
proof (relation "measure (\<lambda>(t, s). size s)")
  show "wf (measure (\<lambda>(t, s). size s))" by simp
next
  fix target source :: json and x :: "string \<times> json" and key v result
  assume mem: "x \<in> set (entries source)" and x: "(key, v) = x"
    and obj: "truthy v \<and> typeof_object v \<and> \<not> isArray v"
  have "size v < size source"
  proof (cases source)
    case (JArr xs)
    with mem x have "v \<in> set xs" by (auto dest: set_zip_rightD)
    then have "size v \<le> size_list size xs" by (induction xs) auto
    with JArr show ?thesis by simp
  next
    case (JObj kvs)
    with mem x have "(key, v) \<in> set kvs" by simp
    then have "size v \<le> size_list (size_prod (\<lambda>_. 0) size) kvs" by (induction kvs) auto
    with JObj show ?thesis by simp
  next
    case (JStr s)
    with mem x obj show ?thesis by (auto dest!: set_zip_rightD)
  qed (use mem in auto)
  then show "((or_empty (obj_get result key), v), (target, source)) \<in> measure (\<lambda>(t, s). size s)"
    by simp
qed

declare deepMerge.simps [simp del]

definition defaultConfig :: json where
  "defaultConfig = JObj [
     (''audio'', JObj [
        (''noiseSuppression'', JObj [
           (''enabled'', JBool False),
           (''intensity'', JStr ''medium''),
           (''model'', JStr ''rnnoise'')]),
        (''agc'', JObj [
           (''enabled'', JBool False),
           (''targetLevel'', JNum (- 20)),
           (''compressionRatio'', JNum 3),
           (''attackTime'', JNum (1 / 10)),
           (''releaseTime'', JNum (1 / 2))]),
        (''voiceFocus'', JObj [
           (''enabled'', JBool False),
           (''sensitivity'', JNum (8 / 10)),
           (''frequencyRange'', JArr [JNum 85, JNum 255])])]),
     (''video'', JObj [
        (''colorCorrection'', JObj [
           (''enabled'', JBool False),
           (''brightness'', JNum 1),
           (''contrast'', JNum 1),
           (''saturation'', JNum 1),
           (''gamma'', JNum 1)]),
        (''lowLightCompensation'', JObj [
           (''enabled'', JBool False),
           (''threshold'', JNum (3 / 10)),
           (''boost'', JNum (3 / 2)),
           (''preserveColors'', JBool True)]),
        (''backgroundBlur'', JObj [
           (''enabled'', JBool False),
           (''intensity'', JNum 15),
           (''model'', JStr ''bodypix'')]),
        (''backgroundReplace'', JObj [
           (''enabled'', JBool False),
           (''image'', JNull),
           (''model'', JStr ''bodypix'')])]),
     (''performance'', JObj [
        (''targetFPS'', JNum 30),
        (''quality'', JStr ''balanced''),
        (''useWebGL'', JBool True),
        (''useWebWorkers'', JBool False)])]"

definition mergeConfig :: "json \<Rightarrow> json" where
  "mergeConfig userConfig = deepMerge defaultConfig userConfig"

text \<open>
  \<^verbatim>\<open>hasAudioFeatures\<close> and \<^verbatim>\<open>hasVideoFeatures\<close> read the \<^verbatim>\<open>enabled\<close> flags left to right and
  stop at the first truthy one; a missing sub-object makes the read throw.
\<close>

definition hasAudioFeatures :: "json \<Rightarrow> error + bool" where
  "hasAudioFeatures cfg =
     bindE (get_prop cfg ''audio'') (\<lambda>audio.
     bindE (member_enabled audio ''noiseSuppression'') (\<lambda>a. if a then Inr True else
     bindE (member_enabled audio ''agc'') (\<lambda>b. if b then Inr True else
     member_enabled audio ''voiceFocus'')))"

definition hasVideoFeatures :: "json \<Rightarrow> error + bool" where
  "hasVideoFeatures cfg =
     bindE (get_prop cfg ''video'') (\<lambda>video.
     bindE (member_enabled video ''colorCorrection'') (\<lambda>a. if a then Inr True else
     bindE (member_enabled video ''lowLightCompensation'') (\<lambda>b. if b then Inr True else
     bindE (member_enabled video ''backgroundBlur'') (\<lambda>c. if c then Inr True else
     member_enabled video ''backgroundReplace''))))"

section \<open>Browser capabilities\<close>

text \<open>
  Everything the library obtains from the browser is a parameter of the model: whether the
  audio context, the WebGL context, the 2D canvas context and the shader program can be
  created, whether Web Audio accepts a connection, what the audio graph and the video
  frame loop make of a stream once they are wired, and what the GPU shader and the canvas
  blur filter make of an image. Theorems hold for every value of these parameters unless
  they say otherwise.
\<close>

record media_stream =
  sid :: nat
  audioTracks :: "nat list"
  videoTracks :: "nat list"

text \<open>
  A \<^verbatim>\<open>MediaStream\<close> is an object with an identity (\<open>sid\<close>) and two track lists; returning the
  argument itself returns the same \<open>sid\<close>. The argument of \<^verbatim>\<open>process\<close> may be any JavaScript
  value, so it is either a stream or something that fails
  \<^verbatim>\<open>stream instanceof MediaStream\<close>.
\<close>

datatype stream_arg = NotAMediaStream | AMediaStream media_stream

record image =
  img_width :: nat
  img_height :: nat
  img_data :: "nat list"

record frame =
  fr_image :: image
  fr_timestamp :: nat
  fr_duration :: nat

record env =
  audio_context_ok :: bool
  audio_connect_ok :: bool
  webgl_ok :: bool
  canvas2d_ok :: bool
  shader_ok :: bool
  audio_graph :: "media_stream \<Rightarrow> error + media_stream"
  video_graph :: "media_stream \<Rightarrow> error + media_stream"
  gpu_render :: "json \<Rightarrow> image \<Rightarrow> image"
  canvas_blur :: "json \<Rightarrow> image \<Rightarrow> image"

text \<open>Statements run in sequence; an exception skips the rest.\<close>

definition seqS ::
  "('s \<Rightarrow> (error + unit) \<times> 's) \<Rightarrow> ('s \<Rightarrow> (error + unit) \<times> 's) \<Rightarrow> 's \<Rightarrow> (error + unit) \<times> 's" where
  "seqS f g s = (case f s of (Inl e, s') \<Rightarrow> (Inl e, s') | (Inr u, s') \<Rightarrow> g s')"

section \<open>Video enhancement modules\<close>

definition clamp :: "'a::linorder \<Rightarrow> 'a \<Rightarrow> 'a \<Rightarrow> 'a" where
  "clamp val lo hi = min (max val lo) hi"

text \<open>
  A store into a \<^verbatim>\<open>Uint8ClampedArray\<close>: the number is clamped to 0..255 and rounded to the
  nearest integer, ties to even.
\<close>

definition toUint8Clamp :: "rat \<Rightarrow> nat" where
  "toUint8Clamp x =
     (if x \<le> 0 then 0 else if 255 \<le> x then 255
      else let f = \<lfloor>x\<rfloor>; d = x - of_int f
           in if d < 1 / 2 then nat f
              else if 1 / 2 < d then nat (f + 1)
              else if even f then nat f else nat (f + 1))"

text \<open>
  A video module, as far as its owner sees it: the configuration it built in its
  constructor, the rendering context it was given (\<open>vm_gl\<close>: whether the context is not
  \<^verbatim>\<open>null\<close>) and its \<^verbatim>\<open>isInitialized\<close> flag.
\<close>

record vmodule =
  vm_gl :: bool
  vm_config :: json
  vm_isInitialized :: bool

text \<open>
  A numeric parameter read from a module configuration. The documented configurations hold
  numbers there; \<^verbatim>\<open>null\<close> and booleans convert as JavaScript converts them, and values
  whose conversion is \<^verbatim>\<open>NaN\<close> or needs parsing lie outside the model (they read as 0).
\<close>

definition num_param :: "json \<Rightarrow> string \<Rightarrow> rat" where
  "num_param cfg k =
     (case obj_get (entries cfg) k of
        JNum r \<Rightarrow> r
      | JBool b \<Rightarrow> (if b then 1 else 0)
      | _ \<Rightarrow> 0)"

subsection \<open>LowLightCompensation\<close>

definition LowLightCompensation_new :: "bool \<Rightarrow> json \<Rightarrow> vmodule" where
  "LowLightCompensation_new gl config =
     \<lparr>vm_gl = gl,
      vm_config = spread2 [(''threshold'', JNum (3 / 10)), (''boost'', JNum (3 / 2)),
                           (''preserveColors'', JBool True)] config,
      vm_isInitialized = False\<rparr>"

definition LowLightCompensation_initialize :: "vmodule \<Rightarrow> (error + unit) \<times> vmodule" where
  "LowLightCompensation_initialize m = (Inr (), m\<lparr>vm_isInitialized := True\<rparr>)"

text \<open>
  The pixel loop of \<^verbatim>\<open>processCanvas\<close>, four bytes (R, G, B, A) at a time. The data of an
  \<^verbatim>\<open>ImageData\<close> always has a length that is a multiple of four; a shorter rest is left
  as it is.
\<close>

fun llc_pixels :: "rat \<Rightarrow> rat \<Rightarrow> bool \<Rightarrow> nat list \<Rightarrow> nat list" where
  "llc_pixels threshold boost preserveColors (r # g # b # a # rest) =
     (let luminance = 299 / 1000 * of_nat r + 587 / 1000 * of_nat g + 114 / 1000 * of_nat b
      in (if luminance < threshold
          then (let boostFactor = 1 + (boost - 1) * (1 - luminance / threshold)
                in if preserveColors
                   then [toUint8Clamp (clamp (of_nat r * boostFactor) 0 255),
                         toUint8Clamp (clamp (of_nat g * boostFactor) 0 255),
                         toUint8Clamp (clamp (of_nat b * boostFactor) 0 255), a]
                   else (let enhanced = clamp (luminance * boostFactor) 0 255
                         in [toUint8Clamp enhanced, toUint8Clamp enhanced,
                             toUint8Clamp enhanced, a]))
          else [r, g, b, a]))
     @ llc_pixels threshold boost preserveColors rest"
| "llc_pixels threshold boost preserveColors short = short"

definition LowLightCompensation_processCanvas :: "vmodule \<Rightarrow> image \<Rightarrow> image" where
  "LowLightCompensation_processCanvas m imageData =
     imageData\<lparr>img_data :=
       llc_pixels (num_param (vm_config m) ''threshold'' * 255)
                  (num_param (vm_config m) ''boost'')
                  (truthy (obj_get (entries (vm_config m)) ''preserveColors''))
                  (img_data imageData)\<rparr>"

text \<open>
  \<^verbatim>\<open>async process(imageData) { return this.processCanvas(imageData); }\<close>
  The loop writes into \<^verbatim>\<open>imageData.data\<close> itself and returns the same object, so a result
  that differs from the argument is a change of the caller's frame.
\<close>

definition LowLightCompensation_process :: "vmodule \<Rightarrow> image \<Rightarrow> error + image" where
  "LowLightCompensation_process m imageData = Inr (LowLightCompensation_processCanvas m imageData)"

subsection \<open>ColorCorrection\<close>

definition ColorCorrection_new :: "bool \<Rightarrow> json \<Rightarrow> vmodule" where
  "ColorCorrection_new gl config =
     \<lparr>vm_gl = gl,
      vm_config = spread2 [(''brightness'', JNum 1), (''contrast'', JNum 1),
                           (''saturation'', JNum 1), (''gamma'', JNum 1)] config,
      vm_isInitialized = False\<rparr>"

text \<open>
  \<^verbatim>\<open>initialize\<close> compiles and links the shader program through the context; a missing
  context or a failing shader throws, and the flag stays false.
\<close>

definition ColorCorrection_initialize :: "env \<Rightarrow> vmodule \<Rightarrow> (error + unit) \<times> vmodule" where
  "ColorCorrection_initialize e m =
     (if \<not> vm_gl m then (Inl TypeError, m)
      else if \<not> shader_ok e then (Inl (BackendError ''Failed to link shader program''), m)
      else (Inr (), m\<lparr>vm_isInitialized := True\<rparr>))"

definition ColorCorrection_process :: "env \<Rightarrow> vmodule \<Rightarrow> image \<Rightarrow> error + image" where
  "ColorCorrection_process e m imageData =
     (if \<not> vm_isInitialized m then Inl (NotInitializedError ''ColorCorrection'')
      else Inr (gpu_render e (vm_config m) imageData))"

subsection \<open>BackgroundBlur\<close>

definition BackgroundBlur_new :: "bool \<Rightarrow> json \<Rightarrow> vmodule" where
  "BackgroundBlur_new gl config =
     \<lparr>vm_gl = gl,
      vm_config = spread2 [(''intensity'', JNum 15), (''model'', JStr ''simple'')] config,
      vm_isInitialized = False\<rparr>"

definition BackgroundBlur_initialize :: "vmodule \<Rightarrow> (error + unit) \<times> vmodule" where
  "BackgroundBlur_initialize m = (Inr (), m\<lparr>vm_isInitialized := True\<rparr>)"

text \<open>
  \<^verbatim>\<open>async process(imageData) { return this.processCanvas(imageData); }\<close>
  where \<^verbatim>\<open>processCanvas\<close> draws the image through the canvas blur filter.
\<close>

definition BackgroundBlur_process :: "env \<Rightarrow> vmodule \<Rightarrow> image \<Rightarrow> error + image" where
  "BackgroundBlur_process e m imageData = Inr (canvas_blur e (vm_config m) imageData)"

section \<open>VideoProcessor\<close>

datatype vkind = ColorCorrectionK | LowLightCompensationK | BackgroundBlurK

record video_processor =
  vp_config :: json
  vp_gl :: bool
  vp_ctx :: bool
  vp_colorCorrection :: "vmodule option"
  vp_backgroundBlur :: "vmodule option"
  vp_lowLightCompensation :: "vmodule option"
  vp_isInitialized :: bool
  vp_isProcessing :: bool
  vp_frameCount :: nat

definition VideoProcessor_new :: "json \<Rightarrow> video_processor" where
  "VideoProcessor_new config =
     \<lparr>vp_config = config, vp_gl = False, vp_ctx = False,
      vp_colorCorrection = None, vp_backgroundBlur = None, vp_lowLightCompensation = None,
      vp_isInitialized = False, vp_isProcessing = False, vp_frameCount = 0\<rparr>"

text \<open>
  The three creation steps, shared by \<^verbatim>\<open>createProcessingModules\<close> and \<^verbatim>\<open>createModule\<close>:
  the module is stored in its slot before its \<^verbatim>\<open>initialize\<close> runs.
\<close>

definition create_colorCorrection :: "env \<Rightarrow> video_processor \<Rightarrow> (error + unit) \<times> video_processor" where
  "create_colorCorrection e vp =
     (case ColorCorrection_initialize e
             (ColorCorrection_new (vp_gl vp) (obj_get (entries (vp_config vp)) ''colorCorrection'')) of
        (r, m) \<Rightarrow> (r, vp\<lparr>vp_colorCorrection := Some m\<rparr>))"

definition create_lowLightCompensation :: "video_processor \<Rightarrow> (error + unit) \<times> video_processor" where
  "create_lowLightCompensation vp =
     (case LowLightCompensation_initialize
             (LowLightCompensation_new (vp_gl vp)
                (obj_get (entries (vp_config vp)) ''lowLightCompensation'')) of
        (r, m) \<Rightarrow> (r, vp\<lparr>vp_lowLightCompensation := Some m\<rparr>))"

definition create_backgroundBlur :: "video_processor \<Rightarrow> (error + unit) \<times> video_processor" where
  "create_backgroundBlur vp =
     (case BackgroundBlur_initialize
             (BackgroundBlur_new (vp_gl vp) (obj_get (entries (vp_config vp)) ''backgroundBlur'')) of
        (r, m) \<Rightarrow> (r, vp\<lparr>vp_backgroundBlur := Some m\<rparr>))"

text \<open>
  \<^verbatim>\<open>if (this.config.X?.enabled) { this.X = new X(this.gl, this.config.X); await this.X.initialize(); }\<close>
\<close>

definition when_enabled ::
  "string \<Rightarrow> (video_processor \<Rightarrow> (error + unit) \<times> video_processor) \<Rightarrow>
   video_processor \<Rightarrow> (error + unit) \<times> video_processor" where
  "when_enabled name create vp =
     (case member_enabled_opt (vp_config vp) name of
        Inl err \<Rightarrow> (Inl err, vp)
      | Inr on \<Rightarrow> (if on then create vp else (Inr (), vp)))"

definition createProcessingModules :: "env \<Rightarrow> video_processor \<Rightarrow> (error + unit) \<times> video_processor" where
  "createProcessingModules e =
     seqS (when_enabled ''colorCorrection'' (create_colorCorrection e))
    (seqS (when_enabled ''lowLightCompensation'' create_lowLightCompensation)
          (when_enabled ''backgroundBlur'' create_backgroundBlur))"

definition VideoProcessor_initialize :: "env \<Rightarrow> video_processor \<Rightarrow> (error + unit) \<times> video_processor" where
  "VideoProcessor_initialize e vp =
     (if \<not> webgl_ok e then (Inl (BackendError ''WebGL not supported''), vp)
      else if \<not> canvas2d_ok e
      then (Inl (BackendError ''Failed to get 2D context for video processing canvas''),
            vp\<lparr>vp_gl := True, vp_ctx := False\<rparr>)
      else (case createProcessingModules e (vp\<lparr>vp_gl := True, vp_ctx := True\<rparr>) of
              (Inl err, vp') \<Rightarrow> (Inl err, vp')
            | (Inr u, vp') \<Rightarrow> (Inr (), vp'\<lparr>vp_isInitialized := True\<rparr>)))"

text \<open>
  \<^verbatim>\<open>process(stream)\<close>: the checks, the passthrough for a stream without video tracks, and
  otherwise the frame loop of the browser (\<open>video_graph\<close>). The passthrough returns before
  \<^verbatim>\<open>isProcessing\<close> is reset.
\<close>

definition VideoProcessor_process ::
  "env \<Rightarrow> video_processor \<Rightarrow> stream_arg \<Rightarrow> (error + media_stream) \<times> video_processor" where
  "VideoProcessor_process e vp arg =
     (if \<not> vp_isInitialized vp then (Inl (NotInitializedError ''VideoProcessor''), vp)
      else case arg of
        NotAMediaStream \<Rightarrow> (Inl InvalidInputError, vp)
      | AMediaStream stream \<Rightarrow>
          (if videoTracks stream = [] then (Inr stream, vp\<lparr>vp_isProcessing := True\<rparr>)
           else (case video_graph e stream of
                   Inl err \<Rightarrow> (Inl err, vp\<lparr>vp_isProcessing := False\<rparr>)
                 | Inr processedStream \<Rightarrow> (Inr processedStream, vp\<lparr>vp_isProcessing := False\<rparr>))))"

text \<open>
  The frame conversions go through a canvas and keep the pixels; the new frame takes the
  time stamp and the duration of the original one.
\<close>

definition frameToImageData :: "frame \<Rightarrow> image" where
  "frameToImageData fr = fr_image fr"

definition imageDataToFrame :: "image \<Rightarrow> frame \<Rightarrow> frame" where
  "imageDataToFrame imageData originalFrame = originalFrame\<lparr>fr_image := imageData\<rparr>"

text \<open>
  One guarded module call of \<^verbatim>\<open>processVideoFrame\<close>:
  \<^verbatim>\<open>if (this.X) { processedData = await this.X.process(processedData); }\<close>
  The second component lists the modules whose \<^verbatim>\<open>process\<close> has been called so far.
\<close>

definition call_module ::
  "vmodule option \<Rightarrow> vkind \<Rightarrow> (vmodule \<Rightarrow> image \<Rightarrow> error + image) \<Rightarrow>
   (error + image) \<times> vkind list \<Rightarrow> (error + image) \<times> vkind list" where
  "call_module slot kind run acc =
     (case acc of
        (Inl err, calls) \<Rightarrow> (Inl err, calls)
      | (Inr processedData, calls) \<Rightarrow>
          (case slot of
             None \<Rightarrow> (Inr processedData, calls)
           | Some m \<Rightarrow> (run m processedData, calls @ [kind])))"

definition processVideoFrame ::
  "env \<Rightarrow> video_processor \<Rightarrow> frame \<Rightarrow> (error + frame) \<times> vkind list" where
  "processVideoFrame e vp fr =
     (let s0 = (Inr (frameToImageData fr), []);
          s1 = call_module (vp_lowLightCompensation vp) LowLightCompensationK
                 LowLightCompensation_process s0;
          s2 = call_module (vp_colorCorrection vp) ColorCorrectionK
                 (ColorCorrection_process e) s1;
          s3 = call_module (vp_backgroundBlur vp) BackgroundBlurK
                 (BackgroundBlur_process e) s2
      in (case fst s3 of
            Inl err \<Rightarrow> Inl err
          | Inr processedData \<Rightarrow> Inr (imageDataToFrame processedData fr), snd s3))"

definition createModule :: "env \<Rightarrow> string \<Rightarrow> video_processor \<Rightarrow> (error + unit) \<times> video_processor" where
  "createModule e feature vp =
     (if feature = ''colorCorrection'' then create_colorCorrection e vp
      else if feature = ''lowLightCompensation'' then create_lowLightCompensation vp
      else if feature = ''backgroundBlur'' then create_backgroundBlur vp
      else (Inr (), vp))"

definition removeModule :: "string \<Rightarrow> video_processor \<Rightarrow> (error + unit) \<times> video_processor" where
  "removeModule feature vp =
     (if feature = ''colorCorrection'' then (Inr (), vp\<lparr>vp_colorCorrection := None\<rparr>)
      else if feature = ''lowLightCompensation'' then (Inr (), vp\<lparr>vp_lowLightCompensation := None\<rparr>)
      else if feature = ''backgroundBlur'' then (Inr (), vp\<lparr>vp_backgroundBlur := None\<rparr>)
      else (Inr (), vp))"

definition module_slot :: "video_processor \<Rightarrow> string \<Rightarrow> vmodule option" where
  "module_slot vp feature =
     (if feature = ''colorCorrection'' then vp_colorCorrection vp
      else if feature = ''lowLightCompensation'' then vp_lowLightCompensation vp
      else if feature = ''backgroundBlur'' then vp_backgroundBlur vp
      else None)"

text \<open>
  \<^verbatim>\<open>this.config[feature].enabled = enabled\<close>: the write needs an object at
  \<^verbatim>\<open>this.config[feature]\<close>; module code is strict, so the write throws on a primitive, as
  it does on \<^verbatim>\<open>null\<close> and \<^verbatim>\<open>undefined\<close>. An array would take the property; arrays with
  named properties are not represented, and the write is dropped.
\<close>

definition set_enabled :: "string \<Rightarrow> bool \<Rightarrow> video_processor \<Rightarrow> (error + unit) \<times> video_processor" where
  "set_enabled feature enabled vp =
     (case obj_get (entries (vp_config vp)) feature of
        JObj kvs \<Rightarrow>
          (Inr (), vp\<lparr>vp_config :=
             JObj (obj_set (entries (vp_config vp)) feature
                     (JObj (obj_set kvs ''enabled'' (JBool enabled))))\<rparr>)
      | JArr xs \<Rightarrow> (Inr (), vp)
      | _ \<Rightarrow> (Inl TypeError, vp))"

definition setFeature ::
  "env \<Rightarrow> string \<Rightarrow> bool \<Rightarrow> video_processor \<Rightarrow> (error + unit) \<times> video_processor" where
  "setFeature e feature enabled vp =
     (if feature \<notin> {''colorCorrection'', ''lowLightCompensation'', ''backgroundBlur''}
      then (Inl (UnknownFeature feature), vp)
      else seqS (\<lambda>vp. if enabled \<and> module_slot vp feature = None then createModule e feature vp
                      else if \<not> enabled \<and> module_slot vp feature \<noteq> None
                      then removeModule feature vp
                      else (Inr (), vp))
                (set_enabled feature enabled) vp)"

text \<open>
  \<^verbatim>\<open>destroy\<close> destroys the modules and clears the slots, the contexts and both flags.
\<close>

definition VideoProcessor_destroy :: "video_processor \<Rightarrow> video_processor" where
  "VideoProcessor_destroy vp =
     vp\<lparr>vp_isProcessing := False, vp_isInitialized := False,
        vp_colorCorrection := None, vp_lowLightCompensation := None,
        vp_backgroundBlur := None, vp_gl := False, vp_ctx := False\<rparr>"

text \<open>
  \<^verbatim>\<open>updateConfig(newConfig)\<close> of the pipeline: a shallow merge, then, on an initialized
  pipeline, \<^verbatim>\<open>destroy\<close> followed by \<^verbatim>\<open>initialize\<close>.
\<close>

definition VideoProcessor_updateConfig ::
  "env \<Rightarrow> json \<Rightarrow> video_processor \<Rightarrow> (error + unit) \<times> video_processor" where
  "VideoProcessor_updateConfig e newConfig vp =
     (let vp1 = vp\<lparr>vp_config := spread2 (entries (vp_config vp)) newConfig\<rparr>
      in if vp_isInitialized vp1
         then VideoProcessor_initialize e (VideoProcessor_destroy vp1)
         else (Inr (), vp1))"

subsection \<open>The order of module calls\<close>

fun feature_name :: "vkind \<Rightarrow> string" where
  "feature_name ColorCorrectionK = ''colorCorrection''"
| "feature_name LowLightCompensationK = ''lowLightCompensation''"
| "feature_name BackgroundBlurK = ''backgroundBlur''"

text \<open>A module is present when its slot of the pipeline is not \<^verbatim>\<open>null\<close>.\<close>

definition present :: "video_processor \<Rightarrow> vkind \<Rightarrow> bool" where
  "present vp k = (module_slot vp (feature_name k) \<noteq> None)"

text \<open>A run of \<^verbatim>\<open>setFeature(f, true)\<close> calls, one feature after the other.\<close>

fun enableFeatures :: "env \<Rightarrow> string list \<Rightarrow> video_processor \<Rightarrow> (error + unit) \<times> video_processor" where
  "enableFeatures e [] vp = (Inr (), vp)"
| "enableFeatures e (f # fs) vp = seqS (setFeature e f True) (enableFeatures e fs) vp"

text \<open>
  The colour module is the only one whose \<^verbatim>\<open>process\<close> can refuse to run. The pipeline
  is ready when that module is absent or initialized; it is stored uninitialized when its
  \<^verbatim>\<open>initialize\<close> has thrown (no context, or a shader that does not link).
\<close>

definition modules_ready :: "video_processor \<Rightarrow> bool" where
  "modules_ready vp =
     (case vp_colorCorrection vp of None \<Rightarrow> True | Some m \<Rightarrow> vm_isInitialized m)"

text \<open>
  The order of the video modules as the data model of the specification gives it:
  colour correction, low-light compensation, background blur.
\<close>

definition spec_order :: "vkind list" where
  "spec_order = [ColorCorrectionK, LowLightCompensationK, BackgroundBlurK]"

text \<open>
  What the frame path computes when no module refuses: the low-light transform, then the
  shader of the colour module, then the blur filter, each applied to the result of the one
  before; an empty slot leaves the image as it is.
\<close>

definition apply_slot :: "vmodule option \<Rightarrow> (vmodule \<Rightarrow> image \<Rightarrow> image) \<Rightarrow> image \<Rightarrow> image" where
  "apply_slot slot f img = (case slot of None \<Rightarrow> img | Some m \<Rightarrow> f m img)"

definition low_color_blur :: "env \<Rightarrow> video_processor \<Rightarrow> image \<Rightarrow> image" where
  "low_color_blur e vp img =
     apply_slot (vp_backgroundBlur vp) (\<lambda>m. canvas_blur e (vm_config m))
       (apply_slot (vp_colorCorrection vp) (\<lambda>m. gpu_render e (vm_config m))
          (apply_slot (vp_lowLightCompensation vp) LowLightCompensation_processCanvas img))"

text \<open>
  The module that \<^verbatim>\<open>createModule\<close> stores for a feature: constructed from the context and
  the configuration entry of the pipeline, after its \<^verbatim>\<open>initialize\<close>.
\<close>

fun created_module :: "env \<Rightarrow> video_processor \<Rightarrow> vkind \<Rightarrow> vmodule" where
  "created_module e vp ColorCorrectionK =
     snd (ColorCorrection_initialize e
            (ColorCorrection_new (vp_gl vp) (obj_get (entries (vp_config vp)) ''colorCorrection'')))"
| "created_module e vp LowLightCompensationK =
     snd (LowLightCompensation_initialize
            (LowLightCompensation_new (vp_gl vp)
               (obj_get (entries (vp_config vp)) ''lowLightCompensation'')))"
| "created_module e vp BackgroundBlurK =
     snd (BackgroundBlur_initialize
            (BackgroundBlur_new (vp_gl vp) (obj_get (entries (vp_config vp)) ''backgroundBlur'')))"

section \<open>AudioProcessor\<close>

text \<open>
  An audio module as its owner sees it. The signal processing of the modules is modelled
  further below, where the claims about it are.
\<close>

record audio_node =
  an_context :: bool
  an_config :: json
  an_isInitialized :: bool

datatype akind = NoiseSuppressorK | AutomaticGainControlK | VoiceFocusK

record audio_processor =
  ap_config :: json
  ap_audioContext :: bool
  ap_noiseSuppressor :: "audio_node option"
  ap_agc :: "audio_node option"
  ap_voiceFocus :: "audio_node option"
  ap_sourceNode :: "akind option"
  ap_destinationNode :: "akind option"
  ap_isInitialized :: bool
  ap_isProcessing :: bool

definition AudioProcessor_new :: "json \<Rightarrow> audio_processor" where
  "AudioProcessor_new config =
     \<lparr>ap_config = config, ap_audioContext = False,
      ap_noiseSuppressor = None, ap_agc = None, ap_voiceFocus = None,
      ap_sourceNode = None, ap_destinationNode = None,
      ap_isInitialized = False, ap_isProcessing = False\<rparr>"

definition audio_node_new :: "(string \<times> json) list \<Rightarrow> bool \<Rightarrow> json \<Rightarrow> audio_node" where
  "audio_node_new defaults ctx config =
     \<lparr>an_context = ctx, an_config = spread2 defaults config, an_isInitialized = False\<rparr>"

definition NoiseSuppressor_new :: "bool \<Rightarrow> json \<Rightarrow> audio_node" where
  "NoiseSuppressor_new =
     audio_node_new [(''intensity'', JStr ''medium''), (''model'', JStr ''spectral'')]"

definition AutomaticGainControl_new :: "bool \<Rightarrow> json \<Rightarrow> audio_node" where
  "AutomaticGainControl_new =
     audio_node_new [(''targetLevel'', JNum (- 20)), (''compressionRatio'', JNum 3),
                     (''attackTime'', JNum (1 / 10)), (''releaseTime'', JNum (1 / 2))]"

definition VoiceFocus_new :: "bool \<Rightarrow> json \<Rightarrow> audio_node" where
  "VoiceFocus_new =
     audio_node_new [(''sensitivity'', JNum (8 / 10)),
                     (''frequencyRange'', JArr [JNum 85, JNum 255])]"

text \<open>An audio module creates its nodes from the audio context it was given.\<close>

definition audio_node_initialize :: "audio_node \<Rightarrow> (error + unit) \<times> audio_node" where
  "audio_node_initialize n =
     (if \<not> an_context n then (Inl TypeError, n)
      else (Inr (), n\<lparr>an_isInitialized := True\<rparr>))"

definition create_node ::
  "string \<Rightarrow> (bool \<Rightarrow> json \<Rightarrow> audio_node) \<Rightarrow>
   (audio_node option \<Rightarrow> audio_processor \<Rightarrow> audio_processor) \<Rightarrow>
   audio_processor \<Rightarrow> (error + unit) \<times> audio_processor" where
  "create_node name new store ap =
     (case member_enabled_opt (ap_config ap) name of
        Inl err \<Rightarrow> (Inl err, ap)
      | Inr on \<Rightarrow>
          (if on
           then (case audio_node_initialize
                        (new (ap_audioContext ap) (obj_get (entries (ap_config ap)) name)) of
                   (r, n) \<Rightarrow> (r, store (Some n) ap))
           else (Inr (), ap)))"

text \<open>
  \<^verbatim>\<open>connectNodes(nodes)\<close>: each node is connected to its successor (which needs the browser to
  accept the connection), then the first and the last node become the ends of the chain.
\<close>

definition connectNodes :: "env \<Rightarrow> akind list \<Rightarrow> audio_processor \<Rightarrow> (error + unit) \<times> audio_processor" where
  "connectNodes e nodes ap =
     (if nodes = [] then (Inr (), ap)
      else if 1 < length nodes \<and> \<not> audio_connect_ok e
      then (Inl (BackendError ''connect''), ap)
      else (Inr (), ap\<lparr>ap_sourceNode := Some (hd nodes), ap_destinationNode := Some (last nodes)\<rparr>))"

definition present_nodes :: "audio_processor \<Rightarrow> akind list" where
  "present_nodes ap =
     (if ap_noiseSuppressor ap \<noteq> None then [NoiseSuppressorK] else []) @
     (if ap_agc ap \<noteq> None then [AutomaticGainControlK] else []) @
     (if ap_voiceFocus ap \<noteq> None then [VoiceFocusK] else [])"

definition createProcessingNodes :: "env \<Rightarrow> audio_processor \<Rightarrow> (error + unit) \<times> audio_processor" where
  "createProcessingNodes e =
     seqS (create_node ''noiseSuppression'' NoiseSuppressor_new (\<lambda>n ap. ap\<lparr>ap_noiseSuppressor := n\<rparr>))
    (seqS (create_node ''agc'' AutomaticGainControl_new (\<lambda>n ap. ap\<lparr>ap_agc := n\<rparr>))
    (seqS (create_node ''voiceFocus'' VoiceFocus_new (\<lambda>n ap. ap\<lparr>ap_voiceFocus := n\<rparr>))
          (\<lambda>ap. connectNodes e (present_nodes ap) ap)))"

definition AudioProcessor_initialize :: "env \<Rightarrow> audio_processor \<Rightarrow> (error + unit) \<times> audio_processor" where
  "AudioProcessor_initialize e ap =
     (if \<not> audio_context_ok e then (Inl (BackendError ''Web Audio API not supported''), ap)
      else (case createProcessingNodes e (ap\<lparr>ap_audioContext := True\<rparr>) of
              (Inl err, ap') \<Rightarrow> (Inl err, ap')
            | (Inr u, ap') \<Rightarrow> (Inr (), ap'\<lparr>ap_isInitialized := True\<rparr>)))"

definition AudioProcessor_process ::
  "env \<Rightarrow> audio_processor \<Rightarrow> stream_arg \<Rightarrow> (error + media_stream) \<times> audio_processor" where
  "AudioProcessor_process e ap arg =
     (if \<not> ap_isInitialized ap then (Inl (NotInitializedError ''AudioProcessor''), ap)
      else case arg of
        NotAMediaStream \<Rightarrow> (Inl InvalidInputError, ap)
      | AMediaStream stream \<Rightarrow>
          (if audioTracks stream = [] then (Inr stream, ap\<lparr>ap_isProcessing := True\<rparr>)
           else (case audio_graph e stream of
                   Inl err \<Rightarrow> (Inl err, ap\<lparr>ap_isProcessing := False\<rparr>)
                 | Inr processedStream \<Rightarrow> (Inr processedStream, ap\<lparr>ap_isProcessing := False\<rparr>))))"

text \<open>
  \<^verbatim>\<open>destroy\<close> destroys the nodes, clears their slots and both flags and closes the audio
  context (the ends of the chain keep their last value).
\<close>

definition AudioProcessor_destroy :: "audio_processor \<Rightarrow> audio_processor" where
  "AudioProcessor_destroy ap =
     ap\<lparr>ap_isProcessing := False, ap_isInitialized := False,
        ap_noiseSuppressor := None, ap_agc := None, ap_voiceFocus := None,
        ap_audioContext := False\<rparr>"

text \<open>
  \<^verbatim>\<open>updateConfig(newConfig)\<close> of the pipeline: a shallow merge, then, on an initialized
  pipeline, \<^verbatim>\<open>destroy\<close> followed by \<^verbatim>\<open>initialize\<close>.
\<close>

definition AudioProcessor_updateConfig ::
  "env \<Rightarrow> json \<Rightarrow> audio_processor \<Rightarrow> (error + unit) \<times> audio_processor" where
  "AudioProcessor_updateConfig e newConfig ap =
     (let ap1 = ap\<lparr>ap_config := spread2 (entries (ap_config ap)) newConfig\<rparr>
      in if ap_isInitialized ap1
         then AudioProcessor_initialize e (AudioProcessor_destroy ap1)
         else (Inr (), ap1))"

section \<open>MediaProcessor\<close>

text \<open>
  The methods of the processor and of its pipelines are asynchronous. Each is modelled by
  the state and the result (value or exception) it has settled with, and calls are taken
  one after the other.
\<close>

text \<open>
  The events a \<^verbatim>\<open>MediaProcessor\<close> emits. The model keeps the sequence of \<^verbatim>\<open>emit\<close> calls;
  listeners are observers (the dispatch itself is modelled in the section on the
  \<^verbatim>\<open>EventEmitter\<close>).
\<close>

datatype event =
    Initialized
  | ProcessingStart
  | ProcessingComplete media_stream
  | ConfigUpdated json
  | Destroyed
  | ErrorEvent error

record media_processor =
  mp_config :: json
  mp_audioProcessor :: "audio_processor option"
  mp_videoProcessor :: "video_processor option"
  mp_isProcessing :: bool
  mp_isDestroyed :: bool
  mp_emitted :: "event list"

definition emit_event :: "media_processor \<Rightarrow> event \<Rightarrow> media_processor" where
  "emit_event mp ev = mp\<lparr>mp_emitted := mp_emitted mp @ [ev]\<rparr>"

text \<open>
  \<^verbatim>\<open>if (this.hasAudioFeatures()) { this.audioProcessor = new AudioProcessor(this.config.audio);
       await this.audioProcessor.initialize(); }\<close>
  The pipeline is assigned before it is initialized; nothing is done to a pipeline that is
  already there.
\<close>

definition init_audio :: "env \<Rightarrow> media_processor \<Rightarrow> (error + unit) \<times> media_processor" where
  "init_audio e mp =
     (case hasAudioFeatures (mp_config mp) of
        Inl err \<Rightarrow> (Inl err, mp)
      | Inr on \<Rightarrow>
          (if on
           then (case AudioProcessor_initialize e
                        (AudioProcessor_new (obj_get (entries (mp_config mp)) ''audio'')) of
                   (r, ap) \<Rightarrow> (r, mp\<lparr>mp_audioProcessor := Some ap\<rparr>))
           else (Inr (), mp)))"

definition init_video :: "env \<Rightarrow> media_processor \<Rightarrow> (error + unit) \<times> media_processor" where
  "init_video e mp =
     (case hasVideoFeatures (mp_config mp) of
        Inl err \<Rightarrow> (Inl err, mp)
      | Inr on \<Rightarrow>
          (if on
           then (case VideoProcessor_initialize e
                        (VideoProcessor_new (obj_get (entries (mp_config mp)) ''video'')) of
                   (r, vp) \<Rightarrow> (r, mp\<lparr>mp_videoProcessor := Some vp\<rparr>))
           else (Inr (), mp)))"

definition initializeProcessors :: "env \<Rightarrow> media_processor \<Rightarrow> media_processor" where
  "initializeProcessors e mp =
     (case seqS (init_audio e) (init_video e) mp of
        (Inl err, mp') \<Rightarrow> emit_event mp' (ErrorEvent (InitializationError err))
      | (Inr u, mp') \<Rightarrow> emit_event mp' Initialized)"

text \<open>
  The constructor (\<^verbatim>\<open>config = {}\<close> when the argument is \<^verbatim>\<open>undefined\<close>). It starts
  \<^verbatim>\<open>initializeProcessors\<close>; the model gives the state once that has settled.
\<close>

definition MediaProcessor_new :: "env \<Rightarrow> json \<Rightarrow> media_processor" where
  "MediaProcessor_new e config =
     initializeProcessors e
       \<lparr>mp_config = mergeConfig (if config = JUndefined then JObj [] else config),
        mp_audioProcessor = None, mp_videoProcessor = None,
        mp_isProcessing = False, mp_isDestroyed = False, mp_emitted = []\<rparr>"

text \<open>
  The two stages of \<^verbatim>\<open>process\<close>. Each looks at the tracks of the stream that was passed in
  and hands the stream produced so far to its pipeline.
\<close>

definition audio_stage ::
  "env \<Rightarrow> media_stream \<Rightarrow> media_processor \<Rightarrow> media_stream \<Rightarrow> (error + media_stream) \<times> media_processor" where
  "audio_stage e stream mp processedStream =
     (case mp_audioProcessor mp of
        None \<Rightarrow> (Inr processedStream, mp)
      | Some ap \<Rightarrow>
          (case hasAudioFeatures (mp_config mp) of
             Inl err \<Rightarrow> (Inl err, mp)
           | Inr on \<Rightarrow>
               (if on \<and> 0 < length (audioTracks stream)
                then (case AudioProcessor_process e ap (AMediaStream processedStream) of
                        (r, ap') \<Rightarrow> (r, mp\<lparr>mp_audioProcessor := Some ap'\<rparr>))
                else (Inr processedStream, mp))))"

definition video_stage ::
  "env \<Rightarrow> media_stream \<Rightarrow> media_processor \<Rightarrow> media_stream \<Rightarrow> (error + media_stream) \<times> media_processor" where
  "video_stage e stream mp processedStream =
     (case mp_videoProcessor mp of
        None \<Rightarrow> (Inr processedStream, mp)
      | Some vp \<Rightarrow>
          (case hasVideoFeatures (mp_config mp) of
             Inl err \<Rightarrow> (Inl err, mp)
           | Inr on \<Rightarrow>
               (if on \<and> 0 < length (videoTracks stream)
                then (case VideoProcessor_process e vp (AMediaStream processedStream) of
                        (r, vp') \<Rightarrow> (r, mp\<lparr>mp_videoProcessor := Some vp'\<rparr>))
                else (Inr processedStream, mp))))"

definition process ::
  "env \<Rightarrow> media_processor \<Rightarrow> stream_arg \<Rightarrow> (error + media_stream) \<times> media_processor" where
  "process e mp arg =
     (if mp_isDestroyed mp then (Inl DestroyedError, mp)
      else case arg of
        NotAMediaStream \<Rightarrow> (Inl InvalidInputError, mp)
      | AMediaStream stream \<Rightarrow>
          (case audio_stage e stream
                  (emit_event (mp\<lparr>mp_isProcessing := True\<rparr>) ProcessingStart) stream of
             (Inl err, mp2) \<Rightarrow>
               (Inl err, emit_event (mp2\<lparr>mp_isProcessing := False\<rparr>) (ErrorEvent err))
           | (Inr s1, mp2) \<Rightarrow>
               (case video_stage e stream mp2 s1 of
                  (Inl err, mp3) \<Rightarrow>
                    (Inl err, emit_event (mp3\<lparr>mp_isProcessing := False\<rparr>) (ErrorEvent err))
                | (Inr s2, mp3) \<Rightarrow>
                    (Inr s2, emit_event (mp3\<lparr>mp_isProcessing := False\<rparr>)
                               (ProcessingComplete s2)))))"

text \<open>
  \<^verbatim>\<open>JSON.parse(JSON.stringify(v))\<close> on a value other than \<^verbatim>\<open>undefined\<close>: properties
  holding \<^verbatim>\<open>undefined\<close> are dropped, \<^verbatim>\<open>undefined\<close> array elements become \<^verbatim>\<open>null\<close>.
\<close>

function jsonCopy :: "json \<Rightarrow> json" where
  "jsonCopy (JObj kvs) =
     JObj (map (\<lambda>(k, v). (k, jsonCopy v)) (filter (\<lambda>(k, v). v \<noteq> JUndefined) kvs))"
| "jsonCopy (JArr xs) = JArr (map (\<lambda>v. if v = JUndefined then JNull else jsonCopy v) xs)"
| "jsonCopy JUndefined = JUndefined"
| "jsonCopy JNull = JNull"
| "jsonCopy (JBool b) = JBool b"
| "jsonCopy (JNum r) = JNum r"
| "jsonCopy (JStr s) = JStr s"
  by pat_completeness auto
termination
proof (relation "measure size")
  show "wf (measure (size :: json \<Rightarrow> nat))" by simp
next
  fix kvs :: "(string \<times> json) list" and x :: "string \<times> json" and k v
  assume "x \<in> set (filter (\<lambda>(k, v). v \<noteq> JUndefined) kvs)" and "(k, v) = x"
  then have "(k, v) \<in> set kvs" by auto
  then have "size v \<le> size_list (size_prod (\<lambda>_. 0) size) kvs" by (induction kvs) auto
  then show "(v, JObj kvs) \<in> measure size" by simp
next
  fix xs :: "json list" and v
  assume "v \<in> set xs"
  then have "size v \<le> size_list size xs" by (induction xs) auto
  then show "(v, JArr xs) \<in> measure size" by simp
qed

definition getConfig :: "media_processor \<Rightarrow> json" where
  "getConfig mp = jsonCopy (mp_config mp)"

text \<open>
  \<^verbatim>\<open>JSON.stringify(oldConfig) !== JSON.stringify(newConfig)\<close>: two values have the same
  rendering exactly when their copies through JSON are equal, property order included.
\<close>

definition configChanged :: "json \<Rightarrow> json \<Rightarrow> bool" where
  "configChanged oldConfig newConfig = (jsonCopy oldConfig \<noteq> jsonCopy newConfig)"

definition updateConfig ::
  "env \<Rightarrow> media_processor \<Rightarrow> json \<Rightarrow> (error + unit) \<times> media_processor" where
  "updateConfig e mp newConfig =
     (if mp_isDestroyed mp then (Inl DestroyedError, mp)
      else (let oldConfig = mp_config mp;
                mp1 = mp\<lparr>mp_config := mergeConfig newConfig\<rparr>;
                mp2 = (if configChanged oldConfig (mp_config mp1)
                       then initializeProcessors e mp1 else mp1)
            in (Inr (), emit_event mp2 (ConfigUpdated (mp_config mp2)))))"

text \<open>
  \<^verbatim>\<open>destroy()\<close>: a second call returns at once. The first one sets the flags, destroys
  both pipelines and clears their references, emits \<^verbatim>\<open>destroyed\<close> and removes all
  listeners.
\<close>

definition destroy :: "media_processor \<Rightarrow> media_processor" where
  "destroy mp =
     (if mp_isDestroyed mp then mp
      else emit_event
             (mp\<lparr>mp_isDestroyed := True, mp_isProcessing := False,
                 mp_audioProcessor := None, mp_videoProcessor := None\<rparr>)
             Destroyed)"

section \<open>Example inputs\<close>

text \<open>
  A browser in which every capability is available, and configurations that switch
  features on. They serve as concrete inputs for the properties below.
\<close>

definition env_ok :: env where
  "env_ok =
     \<lparr>audio_context_ok = True, audio_connect_ok = True, webgl_ok = True,
      canvas2d_ok = True, shader_ok = True,
      audio_graph = (\<lambda>s. Inr (s\<lparr>sid := Suc (sid s)\<rparr>)),
      video_graph = (\<lambda>s. Inr (s\<lparr>sid := Suc (sid s)\<rparr>)),
      gpu_render = (\<lambda>cfg img. img),
      canvas_blur = (\<lambda>cfg img. img)\<rparr>"

definition enable :: "string list \<Rightarrow> json" where
  "enable names = JObj (map (\<lambda>n. (n, JObj [(''enabled'', JBool True)])) names)"

definition allEnabled :: json where
  "allEnabled = JObj [
     (''audio'', enable [''noiseSuppression'', ''agc'', ''voiceFocus'']),
     (''video'', enable [''colorCorrection'', ''lowLightCompensation'', ''backgroundBlur''])]"

definition emptyStream :: media_stream where
  "emptyStream = \<lparr>sid = 7, audioTracks = [], videoTracks = []\<rparr>"

definition onlyBackgroundReplace :: json where
  "onlyBackgroundReplace = JObj [(''video'', enable [''backgroundReplace''])]"

definition frame1 :: frame where
  "frame1 = \<lparr>fr_image = \<lparr>img_width = 1, img_height = 1, img_data = [10, 10, 10, 255]\<rparr>,
             fr_timestamp = 0, fr_duration = 33\<rparr>"

definition pipeline_of :: "media_processor \<Rightarrow> video_processor" where
  "pipeline_of mp =
     (case mp_videoProcessor mp of Some vp \<Rightarrow> vp | None \<Rightarrow> VideoProcessor_new JUndefined)"

definition allEnabledPipeline :: video_processor where
  "allEnabledPipeline = pipeline_of (MediaProcessor_new env_ok allEnabled)"

definition emptyPipeline :: video_processor where
  "emptyPipeline = pipeline_of (MediaProcessor_new env_ok onlyBackgroundReplace)"

definition blurColorLowLight :: "string list" where
  "blurColorLowLight = [''backgroundBlur'', ''colorCorrection'', ''lowLightCompensation'']"

definition image1 :: image where
  "image1 = \<lparr>img_width = 1, img_height = 1, img_data = [10, 10, 10, 255]\<rparr>"

definition agcOn :: json where
  "agcOn = JObj [(''audio'', enable [''agc''])]"

text \<open>
  A browser whose shader doubles every byte and whose blur adds one to every byte (so that
  the order of the transforms shows in the pixels), the same browser with a shader that
  does not link, and pipelines obtained by switching features on in two orders.
\<close>

definition env_double :: env where
  "env_double =
     env_ok\<lparr>gpu_render := (\<lambda>cfg img. img\<lparr>img_data := map (\<lambda>x. min 255 (2 * x)) (img_data img)\<rparr>),
            canvas_blur := (\<lambda>cfg img. img\<lparr>img_data := map (\<lambda>x. min 255 (x + 1)) (img_data img)\<rparr>)\<rparr>"

definition env_noShader :: env where
  "env_noShader = env_double\<lparr>shader_ok := False\<rparr>"

definition lowColorBlur :: "string list" where
  "lowColorBlur = [''lowLightCompensation'', ''colorCorrection'', ''backgroundBlur'']"

definition pipelineBCL :: video_processor where
  "pipelineBCL = snd (enableFeatures env_double blurColorLowLight emptyPipeline)"

definition pipelineLCB :: video_processor where
  "pipelineLCB = snd (enableFeatures env_double lowColorBlur emptyPipeline)"

definition brokenPipeline :: video_processor where
  "brokenPipeline =
     snd (setFeature env_noShader ''colorCorrection'' True
            (snd (setFeature env_double ''backgroundBlur'' True emptyPipeline)))"

definition frame1_out :: frame where
  "frame1_out = frame1\<lparr>fr_image := image1\<lparr>img_data := [29, 29, 29, 255]\<rparr>\<rparr>"

section \<open>EventEmitter\<close>

text \<open>
  A listener is a function object. \<open>Callback i t\<close> is a function supplied by the caller,
  with identity \<open>i\<close>, that returns normally or throws (\<open>t\<close>) and does not touch the emitter.
  \<open>OnceWrapper i ev l\<close> is the closure that \<^verbatim>\<open>once(ev, l)\<close> creates:
  \<^verbatim>\<open>(...args) => { this.off(event, onceWrapper); listener.apply(this, args); }\<close>
\<close>

datatype listener = Callback nat bool | OnceWrapper nat string listener

record emitter =
  em_events :: "string \<Rightarrow> listener list option"
  em_nextId :: nat
  em_calls :: "(nat \<times> nat list) list"
  em_console :: "string list"

definition EventEmitter_new :: emitter where
  "EventEmitter_new = \<lparr>em_events = Map.empty, em_nextId = 0, em_calls = [], em_console = []\<rparr>"

text \<open>
  Event names are ordinary names: a name that \<^verbatim>\<open>Object.prototype\<close> defines (such as
  \<^verbatim>\<open>toString\<close>) is found in \<^verbatim>\<open>this.events\<close> without having been registered and lies
  outside this model.
\<close>

text \<open>
  \<open>em_events\<close> is \<^verbatim>\<open>this.events\<close>; \<open>em_nextId\<close> numbers the closures that \<^verbatim>\<open>once\<close> creates;
  \<open>em_calls\<close> records every call of a caller's function with its arguments, and
  \<open>em_console\<close> every \<^verbatim>\<open>console.error\<close> of \<^verbatim>\<open>emit\<close> (by event name).
\<close>

definition on :: "string \<Rightarrow> listener \<Rightarrow> emitter \<Rightarrow> emitter" where
  "on ev l st =
     st\<lparr>em_events := (em_events st)
          (ev \<mapsto> (case em_events st ev of None \<Rightarrow> [] | Some ls \<Rightarrow> ls) @ [l])\<rparr>"

definition once :: "string \<Rightarrow> listener \<Rightarrow> emitter \<Rightarrow> emitter" where
  "once ev l st = on ev (OnceWrapper (em_nextId st) ev l) (st\<lparr>em_nextId := Suc (em_nextId st)\<rparr>)"

text \<open>
  \<^verbatim>\<open>off(event, listener)\<close>: without a listener the whole entry is deleted; otherwise the
  first occurrence is spliced out of the array, and the entry is deleted when the array
  has become empty.
\<close>

definition off :: "string \<Rightarrow> listener option \<Rightarrow> emitter \<Rightarrow> emitter" where
  "off ev lo st =
     (case em_events st ev of
        None \<Rightarrow> st
      | Some ls \<Rightarrow>
          (case lo of
             None \<Rightarrow> st\<lparr>em_events := (em_events st)(ev := None)\<rparr>
           | Some l \<Rightarrow>
               (if remove1 l ls = [] then st\<lparr>em_events := (em_events st)(ev := None)\<rparr>
                else st\<lparr>em_events := (em_events st)(ev \<mapsto> remove1 l ls)\<rparr>)))"

fun invoke :: "listener \<Rightarrow> nat list \<Rightarrow> emitter \<Rightarrow> bool \<times> emitter" where
  "invoke (Callback i throws) args st = (throws, st\<lparr>em_calls := em_calls st @ [(i, args)]\<rparr>)"
| "invoke (OnceWrapper i ev l) args st = invoke l args (off ev (Some (OnceWrapper i ev l)) st)"

text \<open>
  \<^verbatim>\<open>this.events[event].forEach(listener => { try { listener.apply(this, args); }
     catch (error) { console.error(...); } })\<close>
  \<^verbatim>\<open>forEach\<close> fixes the number of indices to visit when it starts and reads each index
  from the array as it is at that moment; an index that no longer exists is skipped.
\<close>

function emit_from :: "string \<Rightarrow> nat list \<Rightarrow> nat \<Rightarrow> nat \<Rightarrow> emitter \<Rightarrow> emitter" where
  "emit_from ev args k len st =
     (if len \<le> k then st
      else emit_from ev args (Suc k) len
             (let arr = (case em_events st ev of None \<Rightarrow> [] | Some ls \<Rightarrow> ls)
              in if k < length arr
                 then (case invoke (arr ! k) args st of
                         (threw, st') \<Rightarrow>
                           (if threw then st'\<lparr>em_console := em_console st' @ [ev]\<rparr> else st'))
                 else st))"
  by pat_completeness auto
termination
  by (relation "measure (\<lambda>(ev, args, k, len, st). len - k)") auto

declare emit_from.simps [simp del]

definition emit :: "string \<Rightarrow> nat list \<Rightarrow> emitter \<Rightarrow> bool \<times> emitter" where
  "emit ev args st =
     (case em_events st ev of
        None \<Rightarrow> (False, st)
      | Some ls \<Rightarrow> (True, emit_from ev args 0 (length ls) st))"

text \<open>Projections used to state what a dispatch to plain callbacks does.\<close>

fun is_callback :: "listener \<Rightarrow> bool" where
  "is_callback (Callback i t) = True"
| "is_callback (OnceWrapper i ev l) = False"

fun callback_id :: "listener \<Rightarrow> nat" where
  "callback_id (Callback i t) = i"
| "callback_id (OnceWrapper i ev l) = i"

fun throws :: "listener \<Rightarrow> bool" where
  "throws (Callback i t) = t"
| "throws (OnceWrapper i ev l) = throws l"

text \<open>\<^verbatim>\<open>e.once('ready', f1); e.on('ready', f2)\<close> on a new emitter.\<close>

definition onceThenOn :: emitter where
  "onceThenOn = on ''ready'' (Callback 2 False) (once ''ready'' (Callback 1 False) EventEmitter_new)"

section \<open>VoiceFocus: statistics and the frequency range array\<close>

text \<open>
  \<^verbatim>\<open>config.frequencyRange\<close> is an array, and an array is an object that several holders
  can refer to. This section therefore keeps arrays in a store: an address refers to an
  array, whose elements are numbers or holes. The module and its statistics hold addresses.
\<close>

type_synonym addr = nat
type_synonym store = "addr \<Rightarrow> rat option list option"

text \<open>\<^verbatim>\<open>a[i] = v\<close>: an index past the end extends the array, leaving holes.\<close>

definition array_write :: "store \<Rightarrow> addr \<Rightarrow> nat \<Rightarrow> rat \<Rightarrow> store" where
  "array_write h a i v =
     (case h a of
        None \<Rightarrow> h
      | Some xs \<Rightarrow>
          h(a \<mapsto> (if i < length xs then xs[i := Some v]
                    else xs @ replicate (i - length xs) None @ [Some v])))"

record vf_object =
  vf_sensitivity :: rat
  vf_frequencyRange :: addr
  vf_frameCount :: nat
  vf_voiceDetected :: bool
  vf_voiceConfidence :: rat
  vf_voiceThreshold :: rat

record vf_stats =
  st_frameCount :: nat
  st_voiceDetected :: bool
  st_voiceConfidence :: rat
  st_sensitivity :: rat
  st_frequencyRange :: addr
  st_voiceThreshold :: rat

text \<open>
  The constructor:
  \<^verbatim>\<open>this.config = { sensitivity: 0.8,
       frequencyRange: AUDIO_CONSTANTS.VOICE_FREQUENCY_RANGE, ...config }\<close>
  The first argument is the address of the constant array, the other two are the
  \<^verbatim>\<open>sensitivity\<close> and the \<^verbatim>\<open>frequencyRange\<close> of \<^verbatim>\<open>config\<close> when it has them.
\<close>

definition VoiceFocus_object :: "addr \<Rightarrow> rat option \<Rightarrow> addr option \<Rightarrow> vf_object" where
  "VoiceFocus_object voiceFrequencyRange sensitivity frequencyRange =
     \<lparr>vf_sensitivity = (case sensitivity of None \<Rightarrow> 8 / 10 | Some s \<Rightarrow> s),
      vf_frequencyRange = (case frequencyRange of None \<Rightarrow> voiceFrequencyRange | Some a \<Rightarrow> a),
      vf_frameCount = 0, vf_voiceDetected = False, vf_voiceConfidence = 0,
      vf_voiceThreshold = 3 / 10\<rparr>"

text \<open>
  \<^verbatim>\<open>getStats() { return { frameCount: this.frameCount, ...,
       frequencyRange: this.config.frequencyRange, voiceThreshold: this.voiceThreshold }; }\<close>
\<close>

definition VoiceFocus_getStats :: "vf_object \<Rightarrow> vf_stats" where
  "VoiceFocus_getStats vf =
     \<lparr>st_frameCount = vf_frameCount vf,
      st_voiceDetected = vf_voiceDetected vf,
      st_voiceConfidence = vf_voiceConfidence vf,
      st_sensitivity = vf_sensitivity vf,
      st_frequencyRange = vf_frequencyRange vf,
      st_voiceThreshold = vf_voiceThreshold vf\<rparr>"

text \<open>
  What the module does with the range: \<^verbatim>\<open>createFilters\<close> and \<^verbatim>\<open>updateFilters\<close> destructure
  \<^verbatim>\<open>const [lowFreq, highFreq] = this.config.frequencyRange\<close> and set the high-pass filter
  to \<^verbatim>\<open>lowFreq * 0.8\<close>, the low-pass filter to \<^verbatim>\<open>highFreq * 1.2\<close> and the voice band to
  \<^verbatim>\<open>(lowFreq + highFreq) / 2\<close>; \<^verbatim>\<open>detectVoiceActivity\<close> destructures the same array on
  every buffer. The result is \<open>None\<close> when the array does not hold two numbers.
\<close>

definition filter_frequencies :: "store \<Rightarrow> vf_object \<Rightarrow> (rat \<times> rat \<times> rat) option" where
  "filter_frequencies h vf =
     (case h (vf_frequencyRange vf) of
        Some (Some lowFreq # Some highFreq # rest) \<Rightarrow>
          Some (lowFreq * (8 / 10), highFreq * (12 / 10), (lowFreq + highFreq) / 2)
      | _ \<Rightarrow> None)"

text \<open>The store of a page that has loaded the library: the constant range array at address 0.\<close>

definition store0 :: store where
  "store0 = Map.empty(0 \<mapsto> [Some 85, Some 255])"

definition voiceFocus0 :: vf_object where
  "voiceFocus0 = VoiceFocus_object 0 None None"

section \<open>Reading a merged configuration\<close>

text \<open>The body of the loop of \<^verbatim>\<open>deepMerge\<close>, for one key of the source.\<close>

definition merge_step :: "string \<times> json \<Rightarrow> (string \<times> json) list \<Rightarrow> (string \<times> json) list" where
  "merge_step = (\<lambda>(key, v) result.
     if truthy v \<and> typeof_object v \<and> \<not> isArray v
     then obj_set result key (deepMerge (or_empty (obj_get result key)) v)
     else obj_set result key v)"

text \<open>
  The values into which \<^verbatim>\<open>deepMerge\<close> descends are the plain objects; everything else
  (primitives, \<^verbatim>\<open>null\<close>, arrays) is a leaf that is assigned as it is.
\<close>

fun is_object :: "json \<Rightarrow> bool" where
  "is_object (JObj kvs) = True"
| "is_object v = False"

text \<open>A JavaScript object has each key once; so has every object inside it.\<close>

function wf_json :: "json \<Rightarrow> bool" where
  "wf_json (JObj kvs) = (distinct (map fst kvs) \<and> list_all (\<lambda>(k, v). wf_json v) kvs)"
| "wf_json (JArr xs) = list_all wf_json xs"
| "wf_json JUndefined = True"
| "wf_json JNull = True"
| "wf_json (JBool b) = True"
| "wf_json (JNum r) = True"
| "wf_json (JStr s) = True"
  by pat_completeness auto
termination
proof (relation "measure size")
  show "wf (measure (size :: json \<Rightarrow> nat))" by simp
next
  fix kvs :: "(string \<times> json) list" and x :: "string \<times> json" and k v
  assume "x \<in> set kvs" and "(k, v) = x"
  then have "(k, v) \<in> set kvs" by simp
  then have "size v \<le> size_list (size_prod (\<lambda>_. 0) size) kvs" by (induction kvs) auto
  then show "(v, JObj kvs) \<in> measure size" by simp
next
  fix xs :: "json list" and v
  assume "v \<in> set xs"
  then have "size v \<le> size_list size xs" by (induction xs) auto
  then show "(v, JArr xs) \<in> measure size" by simp
qed

text \<open>
  \<open>lookup_path v [k1, ..., kn]\<close> reads \<^verbatim>\<open>v[k1]...[kn]\<close>, with \<^verbatim>\<open>undefined\<close> for whatever is
  not there. \<open>has_path v p\<close> says that the keys of \<open>p\<close> exist one inside the other in the
  nested objects of \<open>v\<close>.
\<close>

fun lookup_path :: "json \<Rightarrow> string list \<Rightarrow> json" where
  "lookup_path v [] = v"
| "lookup_path v (k # ks) = lookup_path (obj_get (entries v) k) ks"

fun has_path :: "json \<Rightarrow> string list \<Rightarrow> bool" where
  "has_path v [] = True"
| "has_path (JObj kvs) (k # ks) =
     (case map_of kvs k of None \<Rightarrow> False | Some v \<Rightarrow> has_path v ks)"
| "has_path v (k # ks) = False"

text \<open>
  The override leaves a path untouched when, walking down the path through its nested
  objects, a key is missing. It supplies a leaf at a path when the walk arrives at a value
  that is not a plain object.
\<close>

fun untouched :: "json \<Rightarrow> string list \<Rightarrow> bool" where
  "untouched s [] = False"
| "untouched s (k # ks) =
     (case map_of (entries s) k of
        None \<Rightarrow> True
      | Some v \<Rightarrow> is_object v \<and> untouched v ks)"

fun supplied :: "json \<Rightarrow> string list \<Rightarrow> json \<Rightarrow> bool" where
  "supplied s [] leaf = False"
| "supplied s [k] leaf = (map_of (entries s) k = Some leaf \<and> \<not> is_object leaf)"
| "supplied s (k # ks) leaf =
     (case map_of (entries s) k of
        None \<Rightarrow> False
      | Some v \<Rightarrow> is_object v \<and> supplied v ks leaf)"

text \<open>
  An override is compatible with the defaults when it has a plain object wherever it
  has a value for a key under which the defaults hold a plain object.
\<close>

function compatible :: "json \<Rightarrow> json \<Rightarrow> bool" where
  "compatible (JObj tkvs) s =
     (is_object s \<and>
      list_all (\<lambda>(k, tv). case map_of (entries s) k of
                             None \<Rightarrow> True
                           | Some v \<Rightarrow> is_object tv \<longrightarrow> compatible tv v) tkvs)"
| "compatible (JArr xs) s = True"
| "compatible JUndefined s = True"
| "compatible JNull s = True"
| "compatible (JBool b) s = True"
| "compatible (JNum r) s = True"
| "compatible (JStr x) s = True"
  by pat_completeness auto
termination
proof (relation "measure (\<lambda>(t, s). size t)")
  show "wf (measure (\<lambda>(t :: json, s :: json). size t))" by simp
next
  fix tkvs :: "(string \<times> json) list" and s :: json and x :: "string \<times> json" and k tv v
  assume "x \<in> set tkvs" and "(k, tv) = x"
  then have "(k, tv) \<in> set tkvs" by simp
  then have "size tv \<le> size_list (size_prod (\<lambda>_. 0) size) tkvs" by (induction tkvs) auto
  then show "((tv, v), (JObj tkvs, s)) \<in> measure (\<lambda>(t, s). size t)" by simp
qed

text \<open>Two overrides: a boolean in the place of a module's object, and a well-shaped one.\<close>

definition blurShorthand :: json where
  "blurShorthand = JObj [(''video'', JObj [(''backgroundBlur'', JBool True)])]"

definition tunedEntries :: "(string \<times> json) list" where
  "tunedEntries = [
     (''audio'', JObj [(''agc'', JObj [(''enabled'', JBool True), (''targetLevel'', JNum (- 18))])]),
     (''video'', JObj [(''backgroundBlur'', JObj [(''intensity'', JNum 20)])]),
     (''plugin'', JObj [(''mode'', JStr ''x'')])]"

section \<open>Verified properties\<close>

subsection \<open>Property lists\<close>

lemma map_of_obj_set: "map_of (obj_set r k v) = (map_of r)(k \<mapsto> v)"
  by (induction r) (auto simp: fun_eq_iff)

lemma keys_obj_set: "fst ` set (obj_set r k v) = insert k (fst ` set r)"
proof -
  have "dom (map_of (obj_set r k v)) = insert k (dom (map_of r))"
    by (simp add: map_of_obj_set)
  then show ?thesis by (simp add: dom_map_of_conv_image_fst)
qed

lemma obj_get_obj_set: "obj_get (obj_set r k v) k' = (if k' = k then v else obj_get r k')"
  by (simp add: obj_get_def map_of_obj_set)

subsection \<open>Orchestrator: use after destroy\<close>

lemma destroy_isDestroyed: "mp_isDestroyed (destroy mp)"
  by (simp add: destroy_def emit_event_def)

text \<open>
  C1. Once \<^verbatim>\<open>destroy()\<close> has run, whatever the state was before and whatever the
  arguments are, \<^verbatim>\<open>process\<close> and \<^verbatim>\<open>updateConfig\<close> fail with the destroyed error and
  leave the processor exactly as it was: no event, no merge, no pipeline call. The state
  after the failed call is the destroyed state again, so the same holds for every later
  call.
\<close>

theorem destroyed_fails_fast:
  "process e (destroy mp) arg = (Inl DestroyedError, destroy mp) \<and>
   updateConfig e (destroy mp) newConfig = (Inl DestroyedError, destroy mp)"
  by (simp add: process_def updateConfig_def destroy_isDestroyed)

subsection \<open>Orchestrator: a stream without tracks\<close>

text \<open>
  C2. On a processor that is not destroyed and whose configuration has audio and video
  features enabled, \<^verbatim>\<open>process\<close> of a stream with no audio track and no video track
  returns that very stream (same identity, same tracks), emits \<^verbatim>\<open>processing:start\<close> and
  then \<^verbatim>\<open>processing:complete\<close> carrying the stream, and changes nothing else; this holds
  whether or not the pipelines exist and whatever the browser provides.
\<close>

theorem passthrough_without_tracks:
  assumes "\<not> mp_isDestroyed mp"
    and "hasAudioFeatures (mp_config mp) = Inr True"
    and "hasVideoFeatures (mp_config mp) = Inr True"
    and "audioTracks stream = []" and "videoTracks stream = []"
  shows "process e mp (AMediaStream stream) =
           (Inr stream,
            mp\<lparr>mp_isProcessing := False,
               mp_emitted := mp_emitted mp @ [ProcessingStart, ProcessingComplete stream]\<rparr>)"
  using assms
  by (simp add: process_def audio_stage_def video_stage_def emit_event_def
           split: option.splits)

theorem passthrough_without_tracks_witness:
  "\<not> mp_isDestroyed (MediaProcessor_new env_ok allEnabled) \<and>
   hasAudioFeatures (mp_config (MediaProcessor_new env_ok allEnabled)) = Inr True \<and>
   hasVideoFeatures (mp_config (MediaProcessor_new env_ok allEnabled)) = Inr True \<and>
   audioTracks emptyStream = [] \<and> videoTracks emptyStream = [] \<and>
   mp_audioProcessor (MediaProcessor_new env_ok allEnabled) \<noteq> None \<and>
   mp_videoProcessor (MediaProcessor_new env_ok allEnabled) \<noteq> None \<and>
   fst (process env_ok (MediaProcessor_new env_ok allEnabled) (AMediaStream emptyStream))
     = Inr emptyStream \<and>
   mp_emitted (snd (process env_ok (MediaProcessor_new env_ok allEnabled)
                      (AMediaStream emptyStream)))
     = [Initialized, ProcessingStart, ProcessingComplete emptyStream]"
proof -
  have h1: "\<not> mp_isDestroyed (MediaProcessor_new env_ok allEnabled)" by code_simp
  have h2: "hasAudioFeatures (mp_config (MediaProcessor_new env_ok allEnabled)) = Inr True"
    by code_simp
  have h3: "hasVideoFeatures (mp_config (MediaProcessor_new env_ok allEnabled)) = Inr True"
    by code_simp
  have h4: "audioTracks emptyStream = []" and h5: "videoTracks emptyStream = []"
    by (simp_all add: emptyStream_def)
  have h6: "mp_audioProcessor (MediaProcessor_new env_ok allEnabled) \<noteq> None" by code_simp
  have h7: "mp_videoProcessor (MediaProcessor_new env_ok allEnabled) \<noteq> None" by code_simp
  have h8: "mp_emitted (MediaProcessor_new env_ok allEnabled) = [Initialized]" by code_simp
  show ?thesis
    using passthrough_without_tracks [OF h1 h2 h3 h4 h5, of env_ok] h1 h2 h3 h4 h5 h6 h7 h8
    by simp
qed

subsection \<open>Orchestrator: background replacement alone\<close>

lemma member_enabled_opt_of:
  "member_enabled v k = Inr b \<Longrightarrow> member_enabled_opt v k = Inr b"
  by (auto simp: member_enabled_def member_enabled_opt_def bindE_def get_prop_def
           split: sum.splits if_splits)

lemma processVideoFrame_no_modules:
  "vp_colorCorrection vp = None \<Longrightarrow> vp_lowLightCompensation vp = None \<Longrightarrow>
   vp_backgroundBlur vp = None \<Longrightarrow> processVideoFrame e vp fr = (Inr fr, [])"
  by (simp add: processVideoFrame_def call_module_def frameToImageData_def imageDataToFrame_def)

text \<open>
  C10. When the merged configuration has \<^verbatim>\<open>video.backgroundReplace.enabled\<close> set and every
  other audio and video feature off, \<^verbatim>\<open>hasVideoFeatures\<close> is true and the constructor
  creates a video pipeline (initialized as soon as the browser provides the WebGL and 2D
  contexts), but \<^verbatim>\<open>createProcessingModules\<close> creates no module: all three module slots
  are empty, and every frame leaves \<^verbatim>\<open>processVideoFrame\<close> as it entered, with no module
  called.
\<close>

theorem backgroundReplace_only:
  assumes cfg: "mergeConfig (if userConfig = JUndefined then JObj [] else userConfig) = cfg"
    and audio: "hasAudioFeatures cfg = Inr False"
    and video: "get_prop cfg ''video'' = Inr video"
    and cc: "member_enabled video ''colorCorrection'' = Inr False"
    and ll: "member_enabled video ''lowLightCompensation'' = Inr False"
    and bb: "member_enabled video ''backgroundBlur'' = Inr False"
    and br: "member_enabled video ''backgroundReplace'' = Inr True"
  shows "hasVideoFeatures cfg = Inr True \<and>
         mp_audioProcessor (MediaProcessor_new e userConfig) = None \<and>
         (\<exists>vp. mp_videoProcessor (MediaProcessor_new e userConfig) = Some vp \<and>
               vp_isInitialized vp = (webgl_ok e \<and> canvas2d_ok e) \<and>
               vp_colorCorrection vp = None \<and> vp_lowLightCompensation vp = None \<and>
               vp_backgroundBlur vp = None \<and>
               (\<forall>fr. processVideoFrame e vp fr = (Inr fr, [])))"
proof -
  have hv: "hasVideoFeatures cfg = Inr True"
    using video cc ll bb br by (simp add: hasVideoFeatures_def bindE_def)
  have v: "obj_get (entries cfg) ''video'' = video"
    using video by (auto simp: get_prop_def split: if_splits)
  have m: "createProcessingModules e vp = (Inr (), vp)" if "vp_config vp = video" for vp
    using that member_enabled_opt_of [OF cc] member_enabled_opt_of [OF ll]
      member_enabled_opt_of [OF bb]
    by (simp add: createProcessingModules_def seqS_def when_enabled_def)
  define vp where "vp = snd (VideoProcessor_initialize e (VideoProcessor_new video))"
  have vp: "vp_isInitialized vp = (webgl_ok e \<and> canvas2d_ok e) \<and>
            vp_colorCorrection vp = None \<and> vp_lowLightCompensation vp = None \<and>
            vp_backgroundBlur vp = None"
    unfolding vp_def by (simp add: VideoProcessor_initialize_def VideoProcessor_new_def m)
  have "mp_videoProcessor (MediaProcessor_new e userConfig) = Some vp \<and>
        mp_audioProcessor (MediaProcessor_new e userConfig) = None"
    unfolding vp_def MediaProcessor_new_def using cfg audio hv v
    by (simp add: initializeProcessors_def seqS_def init_audio_def init_video_def emit_event_def
             split: prod.splits sum.splits)
  with hv vp show ?thesis by (simp add: processVideoFrame_no_modules)
qed

theorem backgroundReplace_only_witness:
  "hasAudioFeatures (mergeConfig onlyBackgroundReplace) = Inr False \<and>
   member_enabled (obj_get (entries (mergeConfig onlyBackgroundReplace)) ''video'')
     ''backgroundReplace'' = Inr True \<and>
   hasVideoFeatures (mergeConfig onlyBackgroundReplace) = Inr True \<and>
   (\<exists>vp. mp_videoProcessor (MediaProcessor_new env_ok onlyBackgroundReplace) = Some vp \<and>
         vp_isInitialized vp \<and>
         vp_colorCorrection vp = None \<and> vp_lowLightCompensation vp = None \<and>
         vp_backgroundBlur vp = None \<and>
         processVideoFrame env_ok vp frame1 = (Inr frame1, []))"
proof -
  let ?cfg = "mergeConfig onlyBackgroundReplace"
  let ?video = "obj_get (entries ?cfg) ''video''"
  have h0: "mergeConfig (if onlyBackgroundReplace = JUndefined then JObj []
                         else onlyBackgroundReplace) = ?cfg"
    by (simp add: onlyBackgroundReplace_def)
  have h1: "hasAudioFeatures ?cfg = Inr False" by code_simp
  have h2: "get_prop ?cfg ''video'' = Inr ?video" by code_simp
  have h3: "member_enabled ?video ''colorCorrection'' = Inr False" by code_simp
  have h4: "member_enabled ?video ''lowLightCompensation'' = Inr False" by code_simp
  have h5: "member_enabled ?video ''backgroundBlur'' = Inr False" by code_simp
  have h6: "member_enabled ?video ''backgroundReplace'' = Inr True" by code_simp
  have e: "webgl_ok env_ok \<and> canvas2d_ok env_ok" by (simp add: env_ok_def)
  show ?thesis
    using backgroundReplace_only [OF h0 h1 h2 h3 h4 h5 h6, of env_ok] h1 h6 e
    by auto
qed

subsection \<open>Video pipeline: the order of the modules\<close>

lemma frame_result:
  "processVideoFrame e vp fr =
     (if modules_ready vp
      then (Inr (imageDataToFrame (low_color_blur e vp (frameToImageData fr)) fr),
            filter (present vp) [LowLightCompensationK, ColorCorrectionK, BackgroundBlurK])
      else (Inl (NotInitializedError ''ColorCorrection''),
            filter (present vp) [LowLightCompensationK] @ [ColorCorrectionK]))"
  by (auto simp: processVideoFrame_def call_module_def present_def module_slot_def
        modules_ready_def LowLightCompensation_process_def ColorCorrection_process_def
        BackgroundBlur_process_def low_color_blur_def apply_slot_def Let_def
        split: option.splits)

lemma frame_slots:
  assumes "\<And>k. module_slot a (feature_name k) = module_slot b (feature_name k)"
  shows "processVideoFrame e a fr = processVideoFrame e b fr"
proof -
  have "vp_colorCorrection a = vp_colorCorrection b"
    using assms [of ColorCorrectionK] by (simp add: module_slot_def)
  moreover have "vp_lowLightCompensation a = vp_lowLightCompensation b"
    using assms [of LowLightCompensationK] by (simp add: module_slot_def)
  moreover have "vp_backgroundBlur a = vp_backgroundBlur b"
    using assms [of BackgroundBlurK] by (simp add: module_slot_def)
  ultimately show ?thesis by (simp add: processVideoFrame_def)
qed

lemma created_cong:
  "vp_gl a = vp_gl b \<Longrightarrow>
   obj_get (entries (vp_config a)) (feature_name k) =
     obj_get (entries (vp_config b)) (feature_name k) \<Longrightarrow>
   created_module e a k = created_module e b k"
  by (cases k) simp_all

lemma set_enabled_cases:
  assumes "set_enabled f True vp = (Inr (), vp')"
  shows "vp' = vp \<or>
      (\<exists>kvs. vp' = vp\<lparr>vp_config :=
         JObj (obj_set (entries (vp_config vp)) f
                 (JObj (obj_set kvs ''enabled'' (JBool True))))\<rparr>)"
proof (cases "obj_get (entries (vp_config vp)) f")
  case (JObj kvs)
  with assms have "vp' = vp\<lparr>vp_config :=
         JObj (obj_set (entries (vp_config vp)) f
                 (JObj (obj_set kvs ''enabled'' (JBool True))))\<rparr>"
    by (simp add: set_enabled_def)
  then show ?thesis by (rule_tac disjI2) (rule exI)
next
  case (JArr xs)
  with assms have "vp' = vp" by (simp add: set_enabled_def)
  then show ?thesis by (rule disjI1)
qed (use assms in \<open>simp_all add: set_enabled_def\<close>)


lemma set_enabled_facts:
  assumes "set_enabled f True vp = (Inr (), vp')"
  shows "vp_gl vp' = vp_gl vp"
    and "g \<noteq> f \<Longrightarrow> obj_get (entries (vp_config vp')) g = obj_get (entries (vp_config vp)) g"
    and "module_slot vp' n = module_slot vp n"
    and "modules_ready vp' = modules_ready vp"
proof -
  from set_enabled_cases [OF assms] consider (same) "vp' = vp"
    | (upd) kvs where "vp' = vp\<lparr>vp_config :=
         JObj (obj_set (entries (vp_config vp)) f
                 (JObj (obj_set kvs ''enabled'' (JBool True))))\<rparr>"
    by blast
  note c = this
  show "vp_gl vp' = vp_gl vp" by (cases rule: c) simp_all
  show "module_slot vp' n = module_slot vp n" by (cases rule: c) (simp_all add: module_slot_def)
  show "modules_ready vp' = modules_ready vp"
    by (cases rule: c) (simp_all add: modules_ready_def)
  show "obj_get (entries (vp_config vp')) g = obj_get (entries (vp_config vp)) g" if "g \<noteq> f"
    using that by (cases rule: c) (simp_all add: obj_get_obj_set)
qed


lemma setFeature_step:
  assumes "setFeature e f True vp = (Inr (), vp')"
  shows "vp_gl vp' = vp_gl vp"
    and "g \<noteq> f \<Longrightarrow> obj_get (entries (vp_config vp')) g = obj_get (entries (vp_config vp)) g"
    and "module_slot vp' (feature_name k) =
           (if feature_name k = f \<and> \<not> present vp k then Some (created_module e vp k)
            else module_slot vp (feature_name k))"
    and "modules_ready vp' = modules_ready vp"
proof -
  have f: "f = ''colorCorrection'' \<or> f = ''lowLightCompensation'' \<or> f = ''backgroundBlur''"
    using assms by (auto simp: setFeature_def split: if_splits)
  obtain vp1 where c: "(if module_slot vp f = None then createModule e f vp else (Inr (), vp))
                         = (Inr (), vp1)"
    and s: "set_enabled f True vp1 = (Inr (), vp')"
    using assms f by (auto simp: setFeature_def seqS_def split: prod.splits sum.splits if_splits)
  note se = set_enabled_facts [OF s]
  have 1: "vp_gl vp1 = vp_gl vp" and 2: "vp_config vp1 = vp_config vp"
    using c f
    by (auto simp: createModule_def create_colorCorrection_def create_lowLightCompensation_def
          create_backgroundBlur_def split: if_splits prod.splits)
  show "vp_gl vp' = vp_gl vp" using se(1) 1 by simp
  show "g \<noteq> f \<Longrightarrow> obj_get (entries (vp_config vp')) g = obj_get (entries (vp_config vp)) g"
    using se(2) 2 by simp
  have "module_slot vp1 (feature_name k) =
           (if feature_name k = f \<and> \<not> present vp k then Some (created_module e vp k)
            else module_slot vp (feature_name k))"
    using c f
    by (cases k)
       (auto simp: createModule_def create_colorCorrection_def create_lowLightCompensation_def
          create_backgroundBlur_def module_slot_def present_def
          split: if_splits prod.splits)
  then show "module_slot vp' (feature_name k) =
           (if feature_name k = f \<and> \<not> present vp k then Some (created_module e vp k)
            else module_slot vp (feature_name k))"
    using se(3) by simp
  have "modules_ready vp1 = modules_ready vp"
    using c f
    by (auto simp: createModule_def create_colorCorrection_def create_lowLightCompensation_def
          create_backgroundBlur_def module_slot_def modules_ready_def
          ColorCorrection_initialize_def
          split: if_splits prod.splits option.splits)
  then show "modules_ready vp' = modules_ready vp" using se(4) by simp
qed

lemma enableFeatures_slots:
  "enableFeatures e fs vp = (Inr (), vp') \<Longrightarrow>
   vp_gl vp' = vp_gl vp \<and>
   (\<forall>g. g \<notin> set fs \<longrightarrow>
      obj_get (entries (vp_config vp')) g = obj_get (entries (vp_config vp)) g) \<and>
   modules_ready vp' = modules_ready vp \<and>
   (\<forall>k. module_slot vp' (feature_name k) =
      (if present vp k then module_slot vp (feature_name k)
       else if feature_name k \<in> set fs then Some (created_module e vp k) else None))"
proof (induction fs arbitrary: vp)
  case Nil
  then have "vp' = vp" by simp
  then show ?case by (simp add: present_def)
next
  case (Cons f fs)
  from Cons.prems obtain vp1 where s: "setFeature e f True vp = (Inr (), vp1)"
    and r: "enableFeatures e fs vp1 = (Inr (), vp')"
    by (auto simp: seqS_def split: prod.splits sum.splits)
  note st = setFeature_step [OF s]
  from Cons.IH [OF r]
  have ih1: "vp_gl vp' = vp_gl vp1"
    and ih2: "\<And>g. g \<notin> set fs \<Longrightarrow>
                obj_get (entries (vp_config vp')) g = obj_get (entries (vp_config vp1)) g"
    and ih3: "modules_ready vp' = modules_ready vp1"
    and ih4: "\<And>k. module_slot vp' (feature_name k) =
               (if present vp1 k then module_slot vp1 (feature_name k)
                else if feature_name k \<in> set fs then Some (created_module e vp1 k) else None)"
    by blast+
  have gl: "vp_gl vp' = vp_gl vp" using ih1 st(1) by (simp only:)
  have cfg: "obj_get (entries (vp_config vp')) g = obj_get (entries (vp_config vp)) g"
    if "g \<notin> set (f # fs)" for g
  proof -
    from that have a: "g \<notin> set fs" and b: "g \<noteq> f" by auto
    from ih2 [OF a] st(2) [OF b] show ?thesis by (rule trans)
  qed
  have rdy: "modules_ready vp' = modules_ready vp" using ih3 st(4) by (simp only:)
  have slot: "module_slot vp' (feature_name k) =
      (if present vp k then module_slot vp (feature_name k)
       else if feature_name k \<in> set (f # fs) then Some (created_module e vp k) else None)" for k
  proof (cases "present vp k")
    case True
    with st(3) [of k] have m: "module_slot vp1 (feature_name k) = module_slot vp (feature_name k)"
      by simp
    with True have "present vp1 k" by (simp add: present_def)
    with ih4 [of k] m True show ?thesis by simp
  next
    case False
    show ?thesis
    proof (cases "feature_name k = f")
      case True
      with False st(3) [of k]
      have m: "module_slot vp1 (feature_name k) = Some (created_module e vp k)"
        by simp
      then have "present vp1 k" by (simp add: present_def)
      with ih4 [of k] have "module_slot vp' (feature_name k) = module_slot vp1 (feature_name k)"
        by simp
      with m False True show ?thesis by simp
    next
      case ne: False
      with False st(3) [of k] have np: "\<not> present vp1 k" by (simp add: present_def)
      have "created_module e vp1 k = created_module e vp k"
        using st(1) st(2) [of "feature_name k"] ne by (intro created_cong) simp_all
      with ih4 [of k] np ne False show ?thesis by simp
    qed
  qed
  show ?case
  proof (intro conjI allI impI)
    show "vp_gl vp' = vp_gl vp" by (rule gl)
    show "modules_ready vp' = modules_ready vp" by (rule rdy)
  next
    fix g assume "g \<notin> set (f # fs)"
    then show "obj_get (entries (vp_config vp')) g = obj_get (entries (vp_config vp)) g"
      by (rule cfg)
  next
    fix k
    show "module_slot vp' (feature_name k) =
      (if present vp k then module_slot vp (feature_name k)
       else if feature_name k \<in> set (f # fs) then Some (created_module e vp k) else None)"
      by (rule slot)
  qed
qed

text \<open>
  C6, as the claim states it, fails: with all three modules present, the frame path calls
  low-light compensation first and colour correction second, which is not the order
  colour correction, low-light compensation, background blur.
\<close>

theorem spec_order_counterexample:
  "snd (processVideoFrame env_ok allEnabledPipeline frame1) =
     [LowLightCompensationK, ColorCorrectionK, BackgroundBlurK] \<and>
   snd (processVideoFrame env_ok allEnabledPipeline frame1) \<noteq>
     filter (present allEnabledPipeline) spec_order"
  by code_simp

text \<open>
  C6, amended. For every frame and every state of the pipeline, \<^verbatim>\<open>processVideoFrame\<close>
  applies the modules that are present in the fixed order low-light compensation, colour
  correction, background blur, each to the result of the one before, and skips the absent
  ones: when the colour module is absent or initialized, the frame returned carries
  exactly that composition and the modules called are the present ones in that order.
  When the colour module is present but not initialized (its \<^verbatim>\<open>initialize\<close> threw), the
  frame fails with the error of the colour module after low-light compensation, and
  background blur is not reached. The order does not depend on the order in which
  features were switched on: two successful runs of \<^verbatim>\<open>setFeature(f, true)\<close> calls over the
  same set of features, from the same pipeline, leave the same modules in the slots (those
  present before, and a newly created one for each feature named) and give the same result
  for every frame.
\<close>

theorem video_module_order:
  "processVideoFrame e vp fr =
     (if modules_ready vp
      then (Inr (imageDataToFrame (low_color_blur e vp (frameToImageData fr)) fr),
            filter (present vp) [LowLightCompensationK, ColorCorrectionK, BackgroundBlurK])
      else (Inl (NotInitializedError ''ColorCorrection''),
            filter (present vp) [LowLightCompensationK] @ [ColorCorrectionK])) \<and>
   (\<forall>fs fs' vp1 vp2.
      enableFeatures e fs vp = (Inr (), vp1) \<and> enableFeatures e fs' vp = (Inr (), vp2) \<and>
      set fs = set fs' \<longrightarrow>
        processVideoFrame e vp1 fr = processVideoFrame e vp2 fr \<and>
        modules_ready vp1 = modules_ready vp \<and>
        (\<forall>k. module_slot vp1 (feature_name k) =
           (if present vp k then module_slot vp (feature_name k)
            else if feature_name k \<in> set fs then Some (created_module e vp k) else None)))"
proof (intro conjI allI impI)
  show "processVideoFrame e vp fr =
     (if modules_ready vp
      then (Inr (imageDataToFrame (low_color_blur e vp (frameToImageData fr)) fr),
            filter (present vp) [LowLightCompensationK, ColorCorrectionK, BackgroundBlurK])
      else (Inl (NotInitializedError ''ColorCorrection''),
            filter (present vp) [LowLightCompensationK] @ [ColorCorrectionK]))"
    by (rule frame_result)
next
  fix fs fs' vp1 vp2
  assume a: "enableFeatures e fs vp = (Inr (), vp1) \<and> enableFeatures e fs' vp = (Inr (), vp2) \<and>
             set fs = set fs'"
  then have 1: "enableFeatures e fs vp = (Inr (), vp1)"
    and 2: "enableFeatures e fs' vp = (Inr (), vp2)" and eq: "set fs = set fs'"
    by simp_all
  note s1 = enableFeatures_slots [OF 1] and s2 = enableFeatures_slots [OF 2]
  have "module_slot vp1 (feature_name k) = module_slot vp2 (feature_name k)" for k
  proof -
    from s1 have "module_slot vp1 (feature_name k) =
          (if present vp k then module_slot vp (feature_name k)
           else if feature_name k \<in> set fs then Some (created_module e vp k) else None)"
      by blast
    moreover from s2 have "module_slot vp2 (feature_name k) =
          (if present vp k then module_slot vp (feature_name k)
           else if feature_name k \<in> set fs' then Some (created_module e vp k) else None)"
      by blast
    ultimately show ?thesis using eq by (simp only:)
  qed
  then show "processVideoFrame e vp1 fr = processVideoFrame e vp2 fr"
    by (rule frame_slots)
  show "modules_ready vp1 = modules_ready vp" using s1 by blast
  fix k
  show "module_slot vp1 (feature_name k) =
          (if present vp k then module_slot vp (feature_name k)
           else if feature_name k \<in> set fs then Some (created_module e vp k) else None)"
    using s1 by blast
qed


theorem video_module_order_witness:
  "fst (enableFeatures env_double blurColorLowLight emptyPipeline) = Inr () \<and>
   fst (enableFeatures env_double lowColorBlur emptyPipeline) = Inr () \<and>
   set blurColorLowLight = set lowColorBlur \<and>
   modules_ready pipelineBCL \<and>
   processVideoFrame env_double pipelineBCL frame1 =
     (Inr frame1_out, [LowLightCompensationK, ColorCorrectionK, BackgroundBlurK]) \<and>
   processVideoFrame env_double pipelineLCB frame1 =
     processVideoFrame env_double pipelineBCL frame1 \<and>
   \<not> modules_ready brokenPipeline \<and>
   present brokenPipeline BackgroundBlurK \<and>
   processVideoFrame env_double brokenPipeline frame1 =
     (Inl (NotInitializedError ''ColorCorrection''), [ColorCorrectionK])"
proof -
  have h1: "fst (enableFeatures env_double blurColorLowLight emptyPipeline) = Inr ()"
    by code_simp
  have h2: "fst (enableFeatures env_double lowColorBlur emptyPipeline) = Inr ()"
    by code_simp
  have h3: "set blurColorLowLight = set lowColorBlur"
    by (auto simp: blurColorLowLight_def lowColorBlur_def)
  have e1: "enableFeatures env_double blurColorLowLight emptyPipeline = (Inr (), pipelineBCL)"
    unfolding pipelineBCL_def using h1 by (metis prod.collapse)
  have e2: "enableFeatures env_double lowColorBlur emptyPipeline = (Inr (), pipelineLCB)"
    unfolding pipelineLCB_def using h2 by (metis prod.collapse)
  have r1: "modules_ready pipelineBCL" by code_simp
  have p1: "filter (present pipelineBCL)
              [LowLightCompensationK, ColorCorrectionK, BackgroundBlurK] =
            [LowLightCompensationK, ColorCorrectionK, BackgroundBlurK]"
    by code_simp
  have d1: "imageDataToFrame (low_color_blur env_double pipelineBCL (frameToImageData frame1))
              frame1 = frame1_out"
    by code_simp
  have r2: "\<not> modules_ready brokenPipeline" by code_simp
  have p2: "filter (present brokenPipeline) [LowLightCompensationK] = []" by code_simp
  have p3: "present brokenPipeline BackgroundBlurK" by code_simp
  from video_module_order [of env_double pipelineBCL frame1] r1 p1 d1
  have a: "processVideoFrame env_double pipelineBCL frame1 =
             (Inr frame1_out, [LowLightCompensationK, ColorCorrectionK, BackgroundBlurK])"
    by simp
  from video_module_order [of env_double emptyPipeline frame1] e1 e2 h3
  have b: "processVideoFrame env_double pipelineLCB frame1 =
             processVideoFrame env_double pipelineBCL frame1"
    by blast
  from video_module_order [of env_double brokenPipeline frame1] r2 p2
  have c: "processVideoFrame env_double brokenPipeline frame1 =
             (Inl (NotInitializedError ''ColorCorrection''), [ColorCorrectionK])"
    by simp
  from h1 h2 h3 r1 a b r2 p3 c show ?thesis by blast
qed

subsection \<open>Modules: process before initialize\<close>

text \<open>
  C5. The claim is that every module refuses \<^verbatim>\<open>process\<close> before \<^verbatim>\<open>initialize\<close> and leaves
  the unit alone. The colour module does; the low-light and the blur module do not look at
  their \<^verbatim>\<open>isInitialized\<close> flag. A freshly constructed low-light module, never
  initialized, brightens the dark pixel (10, 10, 10) to (14, 14, 14) in the caller's image
  and returns normally; a freshly constructed blur module hands the image to the canvas
  filter and returns its result.
\<close>

theorem process_before_initialize:
  "\<not> vm_isInitialized (LowLightCompensation_new True JUndefined) \<and>
   LowLightCompensation_process (LowLightCompensation_new True JUndefined) image1 =
     Inr (image1\<lparr>img_data := [14, 14, 14, 255]\<rparr>) \<and>
   \<not> vm_isInitialized (BackgroundBlur_new True JUndefined) \<and>
   BackgroundBlur_process env_ok (BackgroundBlur_new True JUndefined) image1 = Inr image1 \<and>
   ColorCorrection_process env_ok (ColorCorrection_new True JUndefined) image1 =
     Inl (NotInitializedError ''ColorCorrection'')"
  by code_simp

subsection \<open>Orchestrator: updateConfig and the old pipelines\<close>

text \<open>
  C4. The claim is that a changed configuration tears the old pipelines down and that a
  pipeline whose domain has no enabled feature left does not survive. A processor built
  with automatic gain control on has an audio pipeline; after \<^verbatim>\<open>updateConfig({})\<close> the
  merged configuration is the default one (it differs from the old one, no audio feature
  is on), initialization has run again, and the processor still holds the same audio
  pipeline, initialized, with its audio context and its gain-control module.
\<close>

theorem stale_pipeline_after_updateConfig:
  "configChanged (mp_config (MediaProcessor_new env_ok agcOn)) (mergeConfig (JObj [])) \<and>
   fst (updateConfig env_ok (MediaProcessor_new env_ok agcOn) (JObj [])) = Inr () \<and>
   hasAudioFeatures
     (mp_config (snd (updateConfig env_ok (MediaProcessor_new env_ok agcOn) (JObj []))))
     = Inr False \<and>
   mp_audioProcessor (snd (updateConfig env_ok (MediaProcessor_new env_ok agcOn) (JObj [])))
     = mp_audioProcessor (MediaProcessor_new env_ok agcOn) \<and>
   (case mp_audioProcessor
           (snd (updateConfig env_ok (MediaProcessor_new env_ok agcOn) (JObj []))) of
      None \<Rightarrow> False
    | Some ap \<Rightarrow> ap_isInitialized ap \<and> ap_audioContext ap \<and> ap_agc ap \<noteq> None)"
  by code_simp

subsection \<open>EventEmitter: dispatch\<close>

lemma emit_from_callbacks:
  assumes "em_events st ev = Some ls" and "list_all is_callback ls" and "k \<le> length ls"
  shows "emit_from ev args k (length ls) st =
           st\<lparr>em_calls := em_calls st @ map (\<lambda>l. (callback_id l, args)) (drop k ls),
              em_console := em_console st @ map (\<lambda>l. ev) (filter throws (drop k ls))\<rparr>"
  using assms
proof (induction "length ls - k" arbitrary: k st)
  case 0
  then show ?case by (simp add: emit_from.simps)
next
  case (Suc n)
  then have k: "k < length ls" by simp
  then obtain i t where l: "ls ! k = Callback i t"
    using Suc.prems(2) by (metis is_callback.elims(2) list_all_length)
  let ?st = "(if t then (st\<lparr>em_calls := em_calls st @ [(i, args)]\<rparr>)
                        \<lparr>em_console := em_console st @ [ev]\<rparr>
             else st\<lparr>em_calls := em_calls st @ [(i, args)]\<rparr>)"
  have step: "emit_from ev args k (length ls) st = emit_from ev args (Suc k) (length ls) ?st"
    using k l Suc.prems(1) by (subst emit_from.simps) simp
  have "n = length ls - Suc k" using Suc.hyps(2) by simp
  moreover have "em_events ?st ev = Some ls" using Suc.prems(1) by simp
  ultimately have "emit_from ev args (Suc k) (length ls) ?st =
      ?st\<lparr>em_calls := em_calls ?st @ map (\<lambda>l. (callback_id l, args)) (drop (Suc k) ls),
          em_console := em_console ?st @ map (\<lambda>l. ev) (filter throws (drop (Suc k) ls))\<rparr>"
    using Suc.hyps(1) [of "Suc k" ?st] Suc.prems(2) k by simp
  moreover have "drop k ls = Callback i t # drop (Suc k) ls"
    using k l by (metis Cons_nth_drop_Suc)
  ultimately show ?case using step by simp
qed

lemma emit_callbacks_only:
  assumes "em_events st ev = Some ls" and "list_all is_callback ls"
  shows "emit ev args st =
           (True, st\<lparr>em_calls := em_calls st @ map (\<lambda>l. (callback_id l, args)) ls,
                     em_console := em_console st @ map (\<lambda>l. ev) (filter throws ls)\<rparr>)"
  using emit_from_callbacks [OF assms, of 0 args] assms(1) by (simp add: emit_def)

text \<open>
  C8. The claim is that \<^verbatim>\<open>emit\<close> invokes all registered handlers in registration order.
  After \<^verbatim>\<open>once('ready', f1)\<close> and \<^verbatim>\<open>on('ready', f2)\<close> two handlers are registered;
  \<^verbatim>\<open>emit('ready', 5)\<close> returns true and calls \<open>f1\<close> only: the wrapper of \<^verbatim>\<open>once\<close> splices
  itself out of the array that \<^verbatim>\<open>forEach\<close> is walking, \<open>f2\<close> moves to index 0 and index 1,
  which comes next, no longer exists. When the listeners of an event are plain callbacks,
  all of them are called in order, throwing or not (\<open>emit_callbacks_only\<close>).
\<close>

theorem once_skips_next_listener:
  "em_events onceThenOn ''ready'' =
     Some [OnceWrapper 0 ''ready'' (Callback 1 False), Callback 2 False] \<and>
   fst (emit ''ready'' [5] onceThenOn) = True \<and>
   em_calls (snd (emit ''ready'' [5] onceThenOn)) = [(1, [5])] \<and>
   em_events (snd (emit ''ready'' [5] onceThenOn)) ''ready'' = Some [Callback 2 False]"
  by code_simp

subsection \<open>Statistics snapshots\<close>

text \<open>
  C9. The claim is that \<^verbatim>\<open>getStats()\<close> shares no mutable reference with the module. The
  statistics of a \<^verbatim>\<open>VoiceFocus\<close> hold the address of the module's own range array: after
  \<^verbatim>\<open>s = vf.getStats(); s.frequencyRange[0] = 1000\<close> the module's filters are computed from
  1000 and 255 instead of 85 and 255.
\<close>

theorem getStats_shares_frequencyRange:
  "st_frequencyRange (VoiceFocus_getStats voiceFocus0) = vf_frequencyRange voiceFocus0 \<and>
   filter_frequencies store0 voiceFocus0 = Some (68, 306, 170) \<and>
   filter_frequencies
     (array_write store0 (st_frequencyRange (VoiceFocus_getStats voiceFocus0)) 0 1000)
     voiceFocus0 = Some (800, 306, 1255 / 2)"
  by (simp add: VoiceFocus_getStats_def voiceFocus0_def VoiceFocus_object_def
        filter_frequencies_def store0_def array_write_def)

subsection \<open>Configuration merge\<close>

lemma deepMerge_fold: "deepMerge t s = JObj (fold merge_step (entries s) (entries t))"
  by (subst deepMerge.simps) (simp add: merge_step_def)

lemma mergeable_iff: "(truthy v \<and> typeof_object v \<and> \<not> isArray v) = is_object v"
  by (cases v) simp_all

lemma map_of_merge_step:
  "map_of (merge_step (k, v) r) =
     (map_of r)(k \<mapsto> (if is_object v then deepMerge (or_empty (obj_get r k)) v else v))"
  by (simp add: merge_step_def mergeable_iff map_of_obj_set)

lemma fold_other:
  "k \<notin> fst ` set kvs \<Longrightarrow> map_of (fold merge_step kvs r) k = map_of r k"
proof (induction kvs arbitrary: r)
  case Nil
  then show ?case by simp
next
  case (Cons a kvs)
  obtain k' v' where a: "a = (k', v')" by (cases a)
  with Cons show ?case by (simp add: map_of_merge_step)
qed

lemma fold_key:
  "distinct (map fst kvs) \<Longrightarrow> (k, v) \<in> set kvs \<Longrightarrow>
   map_of (fold merge_step kvs r) k =
     Some (if is_object v then deepMerge (or_empty (obj_get r k)) v else v)"
proof (induction kvs arbitrary: r)
  case Nil
  then show ?case by simp
next
  case (Cons a kvs)
  obtain k' v' where a: "a = (k', v')" by (cases a)
  show ?case
  proof (cases "(k, v) = a")
    case True
    with Cons.prems a have "k \<notin> fst ` set kvs" by auto
    from fold_other [OF this] True a show ?thesis by (simp add: map_of_merge_step)
  next
    case False
    with Cons.prems a have in_rest: "(k, v) \<in> set kvs" and ne: "k \<noteq> k'"
      by (auto simp: image_iff)
    from ne have "obj_get (merge_step (k', v') r) k = obj_get r k"
      by (simp add: obj_get_def map_of_merge_step)
    with Cons.IH [OF _ in_rest, of "merge_step (k', v') r"] Cons.prems(1) a
    show ?thesis by simp
  qed
qed


lemma deepMerge_get:
  assumes "distinct (map fst kvs)" and "(k, v) \<in> set kvs"
  shows "obj_get (entries (deepMerge t (JObj kvs))) k =
           (if is_object v then deepMerge (or_empty (obj_get (entries t) k)) v else v)"
  using fold_key [OF assms, of "entries t"] by (simp add: deepMerge_fold obj_get_def)

lemma deepMerge_other:
  "k \<notin> fst ` set (entries s) \<Longrightarrow>
   obj_get (entries (deepMerge t s)) k = obj_get (entries t) k"
  using fold_other [of k "entries s" "entries t"] by (simp add: deepMerge_fold obj_get_def)

lemma keys_fold: "fst ` set (fold merge_step kvs r) = fst ` set r \<union> fst ` set kvs"
proof (induction kvs arbitrary: r)
  case Nil
  then show ?case by simp
next
  case (Cons a kvs)
  obtain k v where a: "a = (k, v)" by (cases a)
  have "fst ` set (merge_step (k, v) r) = insert k (fst ` set r)"
    by (simp add: merge_step_def keys_obj_set)
  with Cons a show ?case by auto
qed

lemma deepMerge_keys:
  "fst ` set (entries (deepMerge t s)) = fst ` set (entries t) \<union> fst ` set (entries s)"
  by (simp add: deepMerge_fold keys_fold)

lemma wf_json_member: "wf_json (JObj kvs) \<Longrightarrow> (k, v) \<in> set kvs \<Longrightarrow> wf_json v"
  by (auto simp: list_all_iff)

lemma lookup_undefined: "lookup_path JUndefined p = JUndefined"
  by (induction p) (simp_all add: obj_get_def)

lemma falsy_entries: "\<not> truthy x \<Longrightarrow> entries x = []"
  by (cases x) simp_all

lemma lookup_or_empty: "p \<noteq> [] \<Longrightarrow> lookup_path (or_empty x) p = lookup_path x p"
  by (cases p) (simp_all add: or_empty_def falsy_entries)

lemma supplied_leaf:
  "is_object s \<Longrightarrow> wf_json s \<Longrightarrow> supplied s p leaf \<Longrightarrow> lookup_path (deepMerge t s) p = leaf"
proof (induction s p leaf arbitrary: t rule: supplied.induct)
  case (1 s leaf)
  then show ?case by simp
next
  case (2 s k leaf)
  then obtain kvs where s: "s = JObj kvs" by (cases s) simp_all
  with 2 have "(k, leaf) \<in> set kvs" and "distinct (map fst kvs)" and "\<not> is_object leaf"
    by (auto dest: map_of_SomeD)
  then show ?case using s by (simp add: deepMerge_get)
next
  case (3 s k k2 ks leaf)
  then obtain kvs where s: "s = JObj kvs" by (cases s) simp_all
  from 3(4) s obtain v where v: "map_of kvs k = Some v" "is_object v" "supplied v (k2 # ks) leaf"
    by (auto split: option.splits)
  then have mem: "(k, v) \<in> set kvs" by (auto dest: map_of_SomeD)
  with 3(3) s have d: "distinct (map fst kvs)" and wf: "wf_json v"
    by (auto simp: list_all_iff)
  have "lookup_path (deepMerge (or_empty (obj_get (entries t) k)) v) (k2 # ks) = leaf"
    using 3(1) [of v "or_empty (obj_get (entries t) k)"] v wf s by simp
  then show ?case using s v deepMerge_get [OF d mem, of t] by simp
qed

lemma untouched_keep:
  "is_object s \<Longrightarrow> wf_json s \<Longrightarrow> untouched s p \<Longrightarrow>
   lookup_path (deepMerge t s) p = lookup_path t p"
proof (induction p arbitrary: s t)
  case Nil
  then show ?case by simp
next
  case (Cons k ks)
  then obtain kvs where s: "s = JObj kvs" by (cases s) simp_all
  show ?case
  proof (cases "map_of kvs k")
    case None
    then have "k \<notin> fst ` set (entries s)" using s by (simp add: map_of_eq_None_iff)
    from deepMerge_other [OF this] show ?thesis by simp
  next
    case (Some v)
    with Cons.prems s have v: "is_object v" "untouched v ks" by simp_all
    then have ne: "ks \<noteq> []" by (cases ks) simp_all
    from Some have mem: "(k, v) \<in> set kvs" by (auto dest: map_of_SomeD)
    with Cons.prems(2) s have d: "distinct (map fst kvs)" and wf: "wf_json v"
      by (auto simp: list_all_iff)
    have "lookup_path (deepMerge (or_empty (obj_get (entries t) k)) v) ks =
            lookup_path (or_empty (obj_get (entries t) k)) ks"
      by (rule Cons.IH [OF v(1) wf v(2)])
    then show ?thesis
      using s v deepMerge_get [OF d mem, of t] ne by (simp add: lookup_or_empty)
  qed
qed

lemma compatible_object: "is_object t \<Longrightarrow> compatible t s \<Longrightarrow> is_object s"
  by (cases t) simp_all

lemma has_path_object: "has_path v p \<Longrightarrow> p \<noteq> [] \<Longrightarrow> is_object v"
  by (cases v; cases p) simp_all

lemma paths_kept:
  "wf_json s \<Longrightarrow> compatible t s \<Longrightarrow> has_path t p \<Longrightarrow> has_path (deepMerge t s) p"
proof (induction p arbitrary: s t)
  case Nil
  then show ?case by simp
next
  case (Cons k ks)
  from Cons.prems(3) obtain tkvs where t: "t = JObj tkvs"
    using has_path_object by (cases t) auto
  with Cons.prems(3) obtain tv where tv: "map_of tkvs k = Some tv" "has_path tv ks"
    by (auto split: option.splits)
  from Cons.prems(2) t obtain skvs where s: "s = JObj skvs"
    by (cases s) simp_all
  from tv have tmem: "(k, tv) \<in> set tkvs" by (auto dest: map_of_SomeD)
  show ?case
  proof (cases "map_of skvs k")
    case None
    then have "k \<notin> fst ` set (entries s)" using s by (simp add: map_of_eq_None_iff)
    from fold_other [OF this, of "entries t"] tv t s show ?thesis
      by (simp add: deepMerge_fold)
  next
    case (Some v)
    then have mem: "(k, v) \<in> set skvs" by (auto dest: map_of_SomeD)
    with Cons.prems(1) s have d: "distinct (map fst skvs)" and wf: "wf_json v"
      by (auto simp: list_all_iff)
    from Cons.prems(2) t s tmem Some have c: "is_object tv \<Longrightarrow> compatible tv v"
      by (auto simp: list_all_iff)
    have r: "map_of (entries (deepMerge t s)) k =
               Some (if is_object v then deepMerge (or_empty (obj_get (entries t) k)) v else v)"
      using fold_key [OF d mem, of "entries t"] s by (simp add: deepMerge_fold)
    show ?thesis
    proof (cases "ks = []")
      case True
      with r show ?thesis by (simp add: deepMerge_fold)
    next
      case False
      with tv have otv: "is_object tv" by (rule_tac has_path_object)
      then have "truthy tv" by (cases tv) simp_all
      moreover from otv c have cv: "compatible tv v" by simp
      moreover from otv cv have "is_object v" by (rule compatible_object)
      moreover have "has_path (deepMerge tv v) ks"
        by (rule Cons.IH [OF wf cv tv(2)])
      ultimately show ?thesis
        using r t tv by (simp add: deepMerge_fold or_empty_def obj_get_def)
    qed
  qed
qed


lemma mp_config_initializeProcessors: "mp_config (initializeProcessors e mp) = mp_config mp"
  by (auto simp: initializeProcessors_def seqS_def init_audio_def init_video_def emit_event_def
           split: prod.splits sum.splits if_splits)

lemma mp_config_new:
  "mp_config (MediaProcessor_new e (JObj override)) = mergeConfig (JObj override)"
  by (simp add: MediaProcessor_new_def mp_config_initializeProcessors)

text \<open>
  C3, as the claim states it, fails for the override \<^verbatim>\<open>{video: {backgroundBlur: true}}\<close>:
  the boolean replaces the whole default object of the module, so the default key
  \<^verbatim>\<open>video.backgroundBlur.intensity\<close>, which the caller did not specify, is not in the
  configuration any more and reads \<^verbatim>\<open>undefined\<close> instead of 15.
\<close>

theorem default_keys_counterexample:
  "wf_json blurShorthand \<and>
   has_path defaultConfig [''video'', ''backgroundBlur'', ''intensity''] \<and>
   untouched blurShorthand [''video'', ''backgroundBlur'', ''intensity''] = False \<and>
   \<not> supplied blurShorthand [''video'', ''backgroundBlur'', ''intensity''] (JNum 15) \<and>
   lookup_path defaultConfig [''video'', ''backgroundBlur'', ''intensity''] = JNum 15 \<and>
   \<not> has_path (mp_config (MediaProcessor_new env_ok blurShorthand))
         [''video'', ''backgroundBlur'', ''intensity''] \<and>
   lookup_path (mp_config (MediaProcessor_new env_ok blurShorthand))
     [''video'', ''backgroundBlur'', ''intensity''] = JUndefined"
  by code_simp

text \<open>
  C3, amended. For every override object (each key once) the configuration after
  construction has exactly the top-level keys of the defaults and of the override; every
  leaf the override supplies is in it under its path; every path the override leaves
  untouched reads as in the defaults; when the override is compatible with the defaults,
  every key path of the defaults exists in it. The merge is field by field: under a key
  of the source that holds a plain object the result holds the merge of that object onto
  the value of the target (or onto an empty object), under any other key of the source it
  holds the value of the source itself, and under a key that the source does not have it
  holds the value of the target. Merging the empty object onto an object returns it
  unchanged.
\<close>

theorem mergeConfig_properties:
  assumes "wf_json (JObj override)"
  shows "fst ` set (entries (mp_config (MediaProcessor_new e (JObj override)))) =
           fst ` set (entries defaultConfig) \<union> fst ` set override \<and>
         (\<forall>p leaf. supplied (JObj override) p leaf \<longrightarrow>
            lookup_path (mp_config (MediaProcessor_new e (JObj override))) p = leaf) \<and>
         (\<forall>p. untouched (JObj override) p \<longrightarrow>
            lookup_path (mp_config (MediaProcessor_new e (JObj override))) p =
            lookup_path defaultConfig p) \<and>
         (compatible defaultConfig (JObj override) \<longrightarrow>
            (\<forall>p. has_path defaultConfig p \<longrightarrow>
               has_path (mp_config (MediaProcessor_new e (JObj override))) p)) \<and>
         (\<forall>t k v. (k, v) \<in> set override \<longrightarrow>
            obj_get (entries (deepMerge t (JObj override))) k =
              (if truthy v \<and> typeof_object v \<and> \<not> isArray v
               then deepMerge (or_empty (obj_get (entries t) k)) v else v)) \<and>
         (\<forall>t k. k \<notin> fst ` set override \<longrightarrow>
            obj_get (entries (deepMerge t (JObj override))) k = obj_get (entries t) k) \<and>
         (\<forall>c. deepMerge (JObj c) (JObj []) = JObj c)"
proof -
  have d: "distinct (map fst override)" using assms by simp
  have o: "is_object (JObj override)" by simp
  show ?thesis
    unfolding mp_config_new mergeConfig_def
    using supplied_leaf [OF o assms] untouched_keep [OF o assms] paths_kept [OF assms]
      deepMerge_get [OF d] deepMerge_other [of _ "JObj override"]
    by (simp add: deepMerge_keys mergeable_iff deepMerge_fold [of _ "JObj []"])
qed

theorem mergeConfig_properties_witness:
  "wf_json (JObj tunedEntries) \<and> compatible defaultConfig (JObj tunedEntries) \<and>
   supplied (JObj tunedEntries) [''audio'', ''agc'', ''targetLevel''] (JNum (- 18)) \<and>
   lookup_path (mp_config (MediaProcessor_new env_ok (JObj tunedEntries)))
     [''audio'', ''agc'', ''targetLevel''] = JNum (- 18) \<and>
   untouched (JObj tunedEntries) [''audio'', ''agc'', ''attackTime''] \<and>
   lookup_path (mp_config (MediaProcessor_new env_ok (JObj tunedEntries)))
     [''audio'', ''agc'', ''attackTime''] = JNum (1 / 10) \<and>
   has_path defaultConfig [''video'', ''backgroundBlur'', ''enabled''] \<and>
   has_path (mp_config (MediaProcessor_new env_ok (JObj tunedEntries)))
     [''video'', ''backgroundBlur'', ''enabled''] \<and>
   ''plugin'' \<in> fst ` set (entries (mp_config (MediaProcessor_new env_ok (JObj tunedEntries))))"
proof -
  have h1: "wf_json (JObj tunedEntries)" by code_simp
  have h2: "compatible defaultConfig (JObj tunedEntries)" by code_simp
  have h3: "supplied (JObj tunedEntries) [''audio'', ''agc'', ''targetLevel''] (JNum (- 18))"
    by code_simp
  have h4: "untouched (JObj tunedEntries) [''audio'', ''agc'', ''attackTime'']" by code_simp
  have h5: "has_path defaultConfig [''video'', ''backgroundBlur'', ''enabled'']" by code_simp
  have h6: "lookup_path defaultConfig [''audio'', ''agc'', ''attackTime''] = JNum (1 / 10)"
    by code_simp
  have h7: "''plugin'' \<in> fst ` set tunedEntries" by (simp add: tunedEntries_def)
  note t = mergeConfig_properties [OF h1, of env_ok]
  let ?cfg = "mp_config (MediaProcessor_new env_ok (JObj tunedEntries))"
  from t h3 have a: "lookup_path ?cfg [''audio'', ''agc'', ''targetLevel''] = JNum (- 18)"
    by blast
  from t h4 have "lookup_path ?cfg [''audio'', ''agc'', ''attackTime''] =
                    lookup_path defaultConfig [''audio'', ''agc'', ''attackTime'']"
    by blast
  with h6 have b: "lookup_path ?cfg [''audio'', ''agc'', ''attackTime''] = JNum (1 / 10)"
    by (simp only:)
  from t h2 h5 have c: "has_path ?cfg [''video'', ''backgroundBlur'', ''enabled'']"
    by blast
  from t have "fst ` set (entries ?cfg) =
                 fst ` set (entries defaultConfig) \<union> fst ` set tunedEntries"
    by blast
  with h7 have d: "''plugin'' \<in> fst ` set (entries ?cfg)" by blast
  from h1 h2 h3 h4 h5 a b c d show ?thesis by blast
qed

end
